theory Spec2Isabelle
  imports Main "HOL-Library.Word"
begin

section \<open>The log collector of the Kaa C client (kaa\_logging.c)\<close>

text \<open>
  The theory embeds \<^verbatim>\<open>kaa_logging.c\<close>: the collector structure, its creation and
  initialisation, record ingestion, the size estimate, the serialisation of an upload
  request and the handling of the server's acknowledgment.

  Conventions of the embedding.
  \<^item> A pointer that the code tests against \<^verbatim>\<open>NULL\<close> is an \<open>option\<close>: \<open>None\<close> is the
    null pointer, \<open>Some x\<close> a pointer to \<open>x\<close>.
  \<^item> The storage backend, the status view, the decision function and the transport are
    supplied by the integrator. The backend owns a state of an arbitrary type \<open>'s\<close>;
    its callbacks are functions on that state. Every call the collector makes into a
    pluggable component is appended to a trace (\<open>calls\<close>), so that the number and the
    order of the calls can be stated.
  \<^item> A function whose C execution can be undefined (a store or a load outside the
    message buffer, a call through a null function pointer) returns an \<open>option\<close>:
    \<open>None\<close> stands for the undefined execution, about which nothing is claimed.
  \<^item> \<^verbatim>\<open>size_t\<close> and \<^verbatim>\<open>ssize_t\<close> are taken as 64 bits wide (an LP64 target);
    subtraction and addition on them wrap around.
  \<^item> The \<^verbatim>\<open>KAA_LOG_*\<close> lines are diagnostics and are left out, except for what
    they evaluate beyond reading a variable: the \<^verbatim>\<open>KAA_LOG_WARN\<close> of
    \<^verbatim>\<open>update_storage\<close> calls the status view's \<open>get_total_size\<close> and reads
    \<open>max_log_storage_volume\<close>, and the model does so too.
\<close>

subsection \<open>Types\<close>

type_synonym uint8_t = "8 word"
type_synonym uint16_t = "16 word"
type_synonym uint32_t = "32 word"
type_synonym size_t = "64 word"

datatype kaa_error_t =
    KAA_ERR_NONE
  | KAA_ERR_NOMEM
  | KAA_ERR_BADPARAM
  | KAA_ERR_BAD_STATE
  | KAA_ERR_NOT_INITIALIZED
  | KAA_ERR_WRITE_FAILED

datatype kaa_log_upload_decision_t = NOOP | UPLOAD | CLEANUP

text \<open>
  \<^verbatim>\<open>kaa_log_entry_t\<close>: a pointer to the serialised bytes and their number. The
  declaration (\<^verbatim>\<open>kaa_logging.h\<close>) is not among the sources, so the C type of
  \<^verbatim>\<open>record_size\<close> is not known; the field holds the integer value of the C field, and
  each conversion that the code applies to it is written out where it happens.
\<close>

record kaa_log_entry_t =
  record_data :: "uint8_t list option"
  record_size :: int

text \<open>
  \<^verbatim>\<open>kaa_user_log_record_t\<close>: the application's record, with the two methods the
  collector calls. \<open>serialize\<close> receives the memory block handed to the Avro writer and
  returns the block as the writer leaves it.
\<close>

record kaa_user_log_record_t =
  get_size :: int
  serialize :: "uint8_t list \<Rightarrow> uint8_t list"

record kaa_log_upload_properties_t =
  max_log_storage_volume :: size_t
  max_log_block_size :: size_t

text \<open>
  A call into a pluggable component. \<open>GET_RECORD\<close> carries the two arguments of the
  call and the entry that the backend returned.
\<close>

datatype call =
    ADD_LOG_RECORD kaa_log_entry_t
  | GET_RECORD uint16_t size_t kaa_log_entry_t
  | UPLOAD_SUCCEEDED uint16_t
  | UPLOAD_FAILED uint16_t
  | GET_TOTAL_SIZE
  | SHRINK_TO_SIZE size_t
  | DESTROY
  | IS_UPLOAD_NEEDED
  | SYNC

text \<open>
  \<^verbatim>\<open>kaa_log_storage_t\<close>: the backend's table of function pointers. The code tests
  \<open>get_record\<close>, \<open>upload_succeeded\<close> and \<open>upload_failed\<close> against \<^verbatim>\<open>NULL\<close> and calls
  the other three unconditionally.
\<close>

record 's kaa_log_storage_t =
  add_log_record :: "kaa_log_entry_t \<Rightarrow> 's \<Rightarrow> 's"
  get_record :: "(uint16_t \<Rightarrow> size_t \<Rightarrow> 's \<Rightarrow> kaa_log_entry_t \<times> 's) option"
  upload_succeeded :: "(uint16_t \<Rightarrow> 's \<Rightarrow> 's) option"
  upload_failed :: "(uint16_t \<Rightarrow> 's \<Rightarrow> 's) option"
  shrink_to_size :: "size_t \<Rightarrow> 's \<Rightarrow> 's"
  destroy :: "'s \<Rightarrow> 's"

record 's kaa_storage_status_t =
  get_total_size :: "('s \<Rightarrow> size_t) option"
  get_records_count :: "('s \<Rightarrow> uint16_t) option"

type_synonym 's log_upload_decision_fn =
  "'s kaa_storage_status_t option \<Rightarrow> 's \<Rightarrow> kaa_log_upload_decision_t"

text \<open>
  Modelled from the spec: \<^verbatim>\<open>kaa_status_t\<close> (\<^verbatim>\<open>kaa_status.h\<close> is not among the
  sources) is the durable counter store; of its contents only the persisted bucket id
  is read here.
\<close>

record kaa_status_t =
  persisted_log_bucket_id :: uint16_t

text \<open>
  Modelled from the spec: \<^verbatim>\<open>kaa_channel_manager_t\<close> (not among the sources) answers
  the lookup of a sync handler for the logging service; the handler is an optional
  callable whose effect lies outside the collector.
\<close>

record kaa_channel_manager_t =
  logging_sync_handler :: bool

record 's kaa_log_collector_t =
  log_bucket_id :: uint16_t
  log_storage :: "'s kaa_log_storage_t option"
  log_properties :: "kaa_log_upload_properties_t option"
  log_storage_status :: "'s kaa_storage_status_t option"
  is_upload_needed_fn :: "'s log_upload_decision_fn option"
  status :: "kaa_status_t option"
  channel_manager :: kaa_channel_manager_t

text \<open>What lies outside the collector: the backend's state and the trace of calls.\<close>

record 's world =
  backend :: 's
  calls :: "call list"

text \<open>
  The allocator and the Avro memory writer, as far as the collector depends on them:
  \<open>KAA_MALLOC n\<close> is \<open>None\<close> when the allocation fails and the fresh block otherwise;
  \<open>avro_writer_memory n\<close> tells whether a writer over a block of \<open>n\<close> bytes could be
  created.
\<close>

record kaa_platform =
  KAA_MALLOC :: "nat \<Rightarrow> uint8_t list option"
  avro_writer_memory :: "nat \<Rightarrow> bool"

subsection \<open>Creation and initialisation\<close>

text \<open>
  \<^verbatim>\<open>kaa_log_collector_create\<close>. The arguments \<open>log_collector_p\<close> and \<open>allocated\<close>
  tell whether the out-pointer is non-null and whether \<^verbatim>\<open>KAA_MALLOC\<close> succeeded. The
  code leaves \<^verbatim>\<open>is_upload_needed_fn\<close> uninitialised: \<open>garbage\<close> is whatever the fresh
  memory holds there.
\<close>

definition kaa_log_collector_create ::
  "bool \<Rightarrow> bool \<Rightarrow> 's log_upload_decision_fn option \<Rightarrow> kaa_status_t option \<Rightarrow>
   kaa_channel_manager_t \<Rightarrow> kaa_error_t \<times> 's kaa_log_collector_t option"
where
  "kaa_log_collector_create log_collector_p allocated garbage st cm =
     (if \<not> log_collector_p then (KAA_ERR_BADPARAM, None)
      else if \<not> allocated then (KAA_ERR_NOMEM, None)
      else (KAA_ERR_NONE,
            Some \<lparr> log_bucket_id = 0,
                   log_storage = None,
                   log_properties = None,
                   log_storage_status = None,
                   is_upload_needed_fn = garbage,
                   status = st,
                   channel_manager = cm \<rparr>))"

text \<open>\<^verbatim>\<open>kaa_logging_init\<close>: all four dependencies are bound together, or none is.\<close>

definition kaa_logging_init ::
  "'s kaa_log_collector_t option \<Rightarrow> 's kaa_log_storage_t option \<Rightarrow>
   kaa_log_upload_properties_t option \<Rightarrow> 's kaa_storage_status_t option \<Rightarrow>
   's log_upload_decision_fn option \<Rightarrow> 's world \<Rightarrow>
   kaa_error_t \<times> 's kaa_log_collector_t option \<times> 's world"
where
  "kaa_logging_init collector storage properties stat need_upl w =
     (case collector of
        None \<Rightarrow> (KAA_ERR_BADPARAM, collector, w)
      | Some c \<Rightarrow>
          if storage = None \<or> stat = None \<or> need_upl = None \<or> properties = None
          then (KAA_ERR_BADPARAM, collector, w)
          else
            let w1 = (case log_storage c of
                        None \<Rightarrow> w
                      | Some old \<Rightarrow> w\<lparr> backend := destroy old (backend w),
                                       calls := calls w @ [DESTROY] \<rparr>)
            in (KAA_ERR_NONE,
                Some (c\<lparr> log_storage := storage,
                         log_properties := properties,
                         log_storage_status := stat,
                         is_upload_needed_fn := need_upl \<rparr>),
                w1))"

subsection \<open>The decision policy\<close>

text \<open>
  Modelled from the spec: \<^verbatim>\<open>kaa_channel_manager_get_sync_handler\<close> is declared
  \<^verbatim>\<open>extern\<close> and defined elsewhere; it returns the handler registered for the service,
  or null.
\<close>

definition kaa_channel_manager_get_sync_handler :: "kaa_channel_manager_t \<Rightarrow> bool" where
  "kaa_channel_manager_get_sync_handler cm = logging_sync_handler cm"

text \<open>
  \<^verbatim>\<open>update_storage\<close>. The code calls through \<^verbatim>\<open>is_upload_needed_fn\<close> without a
  test. On \<^verbatim>\<open>CLEANUP\<close> it first evaluates the arguments of \<^verbatim>\<open>KAA_LOG_WARN\<close>, the
  call \<^verbatim>\<open>(*self->log_storage_status->get_total_size)()\<close> and the read of
  \<^verbatim>\<open>self->log_properties->max_log_storage_volume\<close>, and then calls
  \<^verbatim>\<open>shrink_to_size\<close> through \<^verbatim>\<open>log_storage\<close>, all without a test: with one of
  these pointers null the execution is undefined.
\<close>

definition update_storage :: "'s kaa_log_collector_t \<Rightarrow> 's world \<Rightarrow> 's world option" where
  "update_storage self w =
     (case is_upload_needed_fn self of
        None \<Rightarrow> None
      | Some needed \<Rightarrow>
          let decision = needed (log_storage_status self) (backend w);
              w1 = w\<lparr> calls := calls w @ [IS_UPLOAD_NEEDED] \<rparr>
          in (case decision of
                CLEANUP \<Rightarrow>
                  (case log_storage_status self of
                     None \<Rightarrow> None
                   | Some sv \<Rightarrow>
                  (case get_total_size sv of
                     None \<Rightarrow> None
                   | Some total_size_fn \<Rightarrow>
                  (case log_properties self of
                     None \<Rightarrow> None
                   | Some p \<Rightarrow>
                  (case log_storage self of
                     None \<Rightarrow> None
                   | Some st \<Rightarrow>
                       let w2 = w1\<lparr> calls := calls w1 @ [GET_TOTAL_SIZE] \<rparr>
                       in Some (w2\<lparr> backend :=
                                      shrink_to_size st (max_log_storage_volume p) (backend w2),
                                    calls :=
                                      calls w2 @ [SHRINK_TO_SIZE (max_log_storage_volume p)] \<rparr>)))))
              | UPLOAD \<Rightarrow>
                  if kaa_channel_manager_get_sync_handler (channel_manager self)
                  then Some (w1\<lparr> calls := calls w1 @ [SYNC] \<rparr>)
                  else Some w1
              | NOOP \<Rightarrow> Some w1))"

subsection \<open>Record ingestion\<close>

definition kaa_logging_add_record ::
  "kaa_platform \<Rightarrow> 's kaa_log_collector_t option \<Rightarrow> kaa_user_log_record_t option \<Rightarrow>
   's world \<Rightarrow> (kaa_error_t \<times> 's world) option"
where
  "kaa_logging_add_record pf self entry w =
     (case self of
        None \<Rightarrow> Some (KAA_ERR_BADPARAM, w)
      | Some c \<Rightarrow>
     (case entry of
        None \<Rightarrow> Some (KAA_ERR_BADPARAM, w)
      | Some e \<Rightarrow>
     (case log_storage c of
        None \<Rightarrow> Some (KAA_ERR_BAD_STATE, w)
      | Some st \<Rightarrow>
          if is_upload_needed_fn c \<noteq> None \<and> log_storage_status c \<noteq> None
          then
            let sz = get_size e in
            if 0 < sz then
              (case KAA_MALLOC pf (nat sz) of
                 None \<Rightarrow> Some (KAA_ERR_NOMEM, w)
               | Some block \<Rightarrow>
                   if \<not> avro_writer_memory pf (nat sz) then Some (KAA_ERR_NOMEM, w)
                   else
                     let record = \<lparr> record_data = Some (serialize e block),
                                    record_size = sz \<rparr>;
                         w1 = w\<lparr> backend := add_log_record st record (backend w),
                                 calls := calls w @ [ADD_LOG_RECORD record] \<rparr>
                     in (case update_storage c w1 of
                           None \<Rightarrow> None
                         | Some w2 \<Rightarrow> Some (KAA_ERR_NONE, w2)))
            else Some (KAA_ERR_BADPARAM, w)
          else Some (KAA_ERR_BAD_STATE, w))))"

subsection \<open>The size estimate\<close>

text \<open>
  Modelled from the spec: \<^verbatim>\<open>KAA_EXTENSION_HEADER_SIZE\<close> is defined in a header that is
  not among the sources. The extension header holds the type, the flags and the body
  length; \<^verbatim>\<open>kaa_logging_request_serialize\<close> places the 4-byte length 4 bytes after the
  start of the header and the bucket id right after the header, which the wire format
  puts right after the length: the header has 8 bytes.
\<close>

definition KAA_EXTENSION_HEADER_SIZE :: nat where
  "KAA_EXTENSION_HEADER_SIZE = 8"

definition KAA_MAX_PADDING_LENGTH :: size_t where
  "KAA_MAX_PADDING_LENGTH = 3"

text \<open>
  \<^verbatim>\<open>kaa_profile_request_get_size\<close>. \<open>expected_size\<close> is the out-pointer: \<open>None\<close> when
  null, otherwise the cell's content, which the result carries as the code leaves it.
  The arithmetic is that of \<^verbatim>\<open>size_t\<close>.
\<close>

definition kaa_profile_request_get_size ::
  "'s kaa_log_collector_t option \<Rightarrow> size_t option \<Rightarrow> 's world \<Rightarrow>
   kaa_error_t \<times> size_t option"
where
  "kaa_profile_request_get_size self expected_size w =
     (case self of
        None \<Rightarrow> (KAA_ERR_BADPARAM, expected_size)
      | Some c \<Rightarrow>
          if expected_size = None then (KAA_ERR_BADPARAM, expected_size)
          else
     (case log_storage_status c of
        None \<Rightarrow> (KAA_ERR_NOT_INITIALIZED, expected_size)
      | Some sv \<Rightarrow>
     (case log_properties c of
        None \<Rightarrow> (KAA_ERR_NOT_INITIALIZED, expected_size)
      | Some p \<Rightarrow>
     (case get_records_count sv of
        None \<Rightarrow> (KAA_ERR_BAD_STATE, expected_size)
      | Some count_fn \<Rightarrow>
     (case get_total_size sv of
        None \<Rightarrow> (KAA_ERR_BAD_STATE, expected_size)
      | Some size_fn \<Rightarrow>
          let expected = (of_nat KAA_EXTENSION_HEADER_SIZE :: size_t) + 4;
              records_count = count_fn (backend w);
              total_size = size_fn (backend w);
              actual_size = ucast records_count * 4
                            + ucast records_count * KAA_MAX_PADDING_LENGTH + total_size
          in (KAA_ERR_NONE,
              Some (expected + (if actual_size < max_log_block_size p
                                then actual_size else max_log_block_size p))))))))"

subsection \<open>The message buffer\<close>

text \<open>
  \<^verbatim>\<open>kaa_platform_message_writer_t\<close> and \<^verbatim>\<open>kaa_platform_message_reader_t\<close> have the
  same shape: the memory between \<^verbatim>\<open>begin\<close> and \<^verbatim>\<open>end\<close>, and \<^verbatim>\<open>current\<close> as an
  offset from \<^verbatim>\<open>begin\<close>.
\<close>

record kaa_platform_message =
  buffer :: "uint8_t list"
  current :: nat

type_synonym kaa_platform_message_writer_t = kaa_platform_message
type_synonym kaa_platform_message_reader_t = kaa_platform_message

text \<open>Multi-byte values in network byte order, and a 32-bit value as the host stores it
  (a little-endian host is assumed for the latter).\<close>

definition be16 :: "uint16_t \<Rightarrow> uint8_t list" where
  "be16 x = [ucast (drop_bit 8 x), ucast x]"

definition be32 :: "uint32_t \<Rightarrow> uint8_t list" where
  "be32 x = [ucast (drop_bit 24 x), ucast (drop_bit 16 x), ucast (drop_bit 8 x), ucast x]"

definition host32 :: "uint32_t \<Rightarrow> uint8_t list" where
  "host32 x = [ucast x, ucast (drop_bit 8 x), ucast (drop_bit 16 x), ucast (drop_bit 24 x)]"

definition load_be16 :: "uint8_t list \<Rightarrow> uint16_t" where
  "load_be16 bs = or (push_bit 8 (ucast (bs ! 0))) (ucast (bs ! 1))"

text \<open>The bytes \<open>n\<close> long at offset \<open>off\<close>; a store through a raw pointer, which is
  undefined outside the buffer.\<close>

definition bytes_at :: "nat \<Rightarrow> nat \<Rightarrow> uint8_t list \<Rightarrow> uint8_t list" where
  "bytes_at off n mem = take n (drop off mem)"

definition store_bytes :: "nat \<Rightarrow> uint8_t list \<Rightarrow> uint8_t list \<Rightarrow> uint8_t list option" where
  "store_bytes off bs mem =
     (if off + length bs \<le> length mem
      then Some (take off mem @ bs @ drop (off + length bs) mem)
      else None)"

text \<open>
  Modelled from the spec: \<^verbatim>\<open>kaa_aligned_size_get\<close> (\<^verbatim>\<open>kaa_platform_utils.h\<close> is not
  among the sources) rounds a size up to the next multiple of 4.
\<close>

definition kaa_aligned_size_get :: "size_t \<Rightarrow> size_t" where
  "kaa_aligned_size_get n = n + (4 - n mod 4) mod 4"

text \<open>
  Modelled from the spec: \<^verbatim>\<open>kaa_platform_message_write\<close> copies the bytes at
  \<^verbatim>\<open>current\<close> and advances it; it fails, writing nothing, when the buffer is exhausted.
\<close>

definition kaa_platform_message_write ::
  "kaa_platform_message_writer_t \<Rightarrow> uint8_t list \<Rightarrow> kaa_error_t \<times> kaa_platform_message_writer_t"
where
  "kaa_platform_message_write writer data =
     (if current writer + length data \<le> length (buffer writer)
      then (KAA_ERR_NONE,
            writer\<lparr> buffer := take (current writer) (buffer writer) @ data
                                @ drop (current writer + length data) (buffer writer),
                    current := current writer + length data \<rparr>)
      else (KAA_ERR_WRITE_FAILED, writer))"

text \<open>
  Modelled from the spec: \<^verbatim>\<open>kaa_platform_message_write_aligned\<close> writes \<open>data_size\<close>
  bytes of the block and pads them to the aligned size (the padding is taken as zero
  bytes); it fails, writing nothing, when the buffer is exhausted. A block shorter than
  \<open>data_size\<close> makes the copy read outside the block, which is undefined.
\<close>

definition kaa_platform_message_write_aligned ::
  "kaa_platform_message_writer_t \<Rightarrow> uint8_t list \<Rightarrow> size_t \<Rightarrow>
   (kaa_error_t \<times> kaa_platform_message_writer_t) option"
where
  "kaa_platform_message_write_aligned writer data data_size =
     (let aligned_size = unat (kaa_aligned_size_get data_size) in
      if current writer + aligned_size \<le> length (buffer writer)
      then
        if unat data_size \<le> length data \<and> unat data_size \<le> aligned_size
        then Some (kaa_platform_message_write writer
                     (take (unat data_size) data @ replicate (aligned_size - unat data_size) 0))
        else None
      else Some (KAA_ERR_WRITE_FAILED, writer))"

text \<open>
  Modelled from the spec: \<^verbatim>\<open>kaa_platform_message_extension_header_write\<close> writes the
  8-byte header: one byte of extension type, three bytes of options and the 4-byte
  payload length, in network byte order; it fails when the buffer is exhausted.
\<close>

definition kaa_platform_message_extension_header_write ::
  "kaa_platform_message_writer_t \<Rightarrow> uint8_t \<Rightarrow> uint32_t \<Rightarrow> uint32_t \<Rightarrow>
   kaa_error_t \<times> kaa_platform_message_writer_t"
where
  "kaa_platform_message_extension_header_write writer extension_type options payload_size =
     kaa_platform_message_write writer
       (extension_type # drop 1 (be32 options) @ be32 payload_size)"

text \<open>
  Modelled from the spec: \<^verbatim>\<open>kaa_status_get_log_bucket_id\<close> (\<^verbatim>\<open>kaa_status.c\<close> is not
  among the sources) reads the persisted bucket id into the cell it is given, and
  fails on a null status.
\<close>

definition kaa_status_get_log_bucket_id ::
  "kaa_status_t option \<Rightarrow> uint16_t \<Rightarrow> kaa_error_t \<times> uint16_t" where
  "kaa_status_get_log_bucket_id st cell =
     (case st of
        None \<Rightarrow> (KAA_ERR_BADPARAM, cell)
      | Some s \<Rightarrow> (KAA_ERR_NONE, persisted_log_bucket_id s))"

definition KAA_LOGGING_RECEIVE_UPDATES_FLAG :: uint32_t where
  "KAA_LOGGING_RECEIVE_UPDATES_FLAG = 1"

subsection \<open>Serialising an upload request\<close>

text \<open>
  The test-and-call \<^verbatim>\<open>if (upload_failed) upload_failed(id)\<close>, which the source
  writes out three times.
\<close>

definition notify_upload_failed :: "'s kaa_log_storage_t \<Rightarrow> uint16_t \<Rightarrow> 's world \<Rightarrow> 's world" where
  "notify_upload_failed st bucket w =
     (case upload_failed st of
        None \<Rightarrow> w
      | Some f \<Rightarrow> w\<lparr> backend := f bucket (backend w),
                     calls := calls w @ [UPLOAD_FAILED bucket] \<rparr>)"

text \<open>
  The \<^verbatim>\<open>for\<close> loop of \<^verbatim>\<open>kaa_logging_request_serialize\<close>, entered with the entry that
  the last \<open>get_record\<close> returned. The result carries the error code, the writer,
  \<open>remaining_size\<close>, \<open>records_count\<close> and the world as the loop leaves them. Each
  iteration that does not leave the loop moves \<open>current\<close> forward by at least 4 bytes
  inside the buffer, so the loop ends.
\<close>

function records_loop ::
  "'s kaa_log_storage_t \<Rightarrow> (uint16_t \<Rightarrow> size_t \<Rightarrow> 's \<Rightarrow> kaa_log_entry_t \<times> 's) \<Rightarrow> uint16_t \<Rightarrow>
   kaa_platform_message_writer_t \<Rightarrow> size_t \<Rightarrow> uint16_t \<Rightarrow> kaa_log_entry_t \<Rightarrow> 's world \<Rightarrow>
   (kaa_error_t \<times> kaa_platform_message_writer_t \<times> size_t \<times> uint16_t \<times> 's world) option"
where
  "records_loop st get bucket writer remaining_size records_count entry w =
     (case record_data entry of
        None \<Rightarrow> Some (KAA_ERR_NONE, writer, remaining_size, records_count, w)
      | Some data \<Rightarrow>
          let records_count1 = records_count + 1;
              remaining_size1 =
                remaining_size - (kaa_aligned_size_get (word_of_int (record_size entry)) + 4);
              r1 = kaa_platform_message_write writer (host32 (word_of_int (record_size entry)))
          in
            if fst r1 \<noteq> KAA_ERR_NONE
            then Some (KAA_ERR_WRITE_FAILED, snd r1, remaining_size1, records_count1,
                       notify_upload_failed st bucket w)
            else
              (case kaa_platform_message_write_aligned (snd r1) data
                      (word_of_int (record_size entry)) of
                 None \<Rightarrow> None
               | Some r2 \<Rightarrow>
                   if fst r2 \<noteq> KAA_ERR_NONE
                   then Some (KAA_ERR_WRITE_FAILED, snd r2, remaining_size1, records_count1,
                              notify_upload_failed st bucket w)
                   else
                     let next = get bucket remaining_size1 (backend w)
                     in records_loop st get bucket (snd r2) remaining_size1 records_count1
                          (fst next)
                          (w\<lparr> backend := snd next,
                              calls := calls w @ [GET_RECORD bucket remaining_size1 (fst next)] \<rparr>)))"
  by pat_completeness auto

termination records_loop
proof (relation "measure (\<lambda>(st, get, bucket, writer, remaining_size, records_count, entry, w).
                            length (buffer writer) - current writer)")
  show "wf (measure (\<lambda>(st :: 's kaa_log_storage_t,
                       get :: uint16_t \<Rightarrow> size_t \<Rightarrow> 's \<Rightarrow> kaa_log_entry_t \<times> 's,
                       bucket :: uint16_t, writer :: kaa_platform_message_writer_t,
                       remaining_size :: size_t, records_count :: uint16_t,
                       entry :: kaa_log_entry_t, w :: 's world).
                      length (buffer writer) - current writer))"
    by simp
qed (auto simp: kaa_platform_message_write_def kaa_platform_message_write_aligned_def
       host32_def Let_def split: if_splits)

text \<open>
  \<^verbatim>\<open>kaa_logging_request_serialize\<close>. \<^verbatim>\<open>KAA_LOGGING_EXTENSION_TYPE\<close> is defined in a
  header that is not among the sources and is taken as a parameter. The two pointers
  kept for back-patching, \<open>extension_header_size_p\<close> and \<open>records_count_p\<close>, are
  offsets into the buffer. The bucket id is stored and the record count reserved
  through the raw \<open>current\<close> pointer, without a test against the end of the buffer:
  with fewer than 4 bytes left after the header the execution is undefined.
\<close>

definition kaa_logging_request_serialize ::
  "uint8_t \<Rightarrow> 's kaa_log_collector_t option \<Rightarrow> kaa_platform_message_writer_t option \<Rightarrow>
   's world \<Rightarrow>
   (kaa_error_t \<times> 's kaa_log_collector_t option \<times> kaa_platform_message_writer_t option
    \<times> 's world) option"
where
  "kaa_logging_request_serialize KAA_LOGGING_EXTENSION_TYPE self writer w =
     (case self of
        None \<Rightarrow> Some (KAA_ERR_BADPARAM, self, writer, w)
      | Some c \<Rightarrow>
     (case writer of
        None \<Rightarrow> Some (KAA_ERR_BADPARAM, self, writer, w)
      | Some wr \<Rightarrow>
     (case log_storage c of
        None \<Rightarrow> Some (KAA_ERR_BAD_STATE, self, writer, w)
      | Some st \<Rightarrow>
     (case get_record st of
        None \<Rightarrow> Some (KAA_ERR_BAD_STATE, self, writer, w)
      | Some get \<Rightarrow>
     (case log_properties c of
        None \<Rightarrow> Some (KAA_ERR_BAD_STATE, self, writer, w)
      | Some p \<Rightarrow>
          let total_size = (4 :: uint32_t);
              extension_header_size_p = current wr + 4;
              h = kaa_platform_message_extension_header_write wr KAA_LOGGING_EXTENSION_TYPE
                    KAA_LOGGING_RECEIVE_UPDATES_FLAG 0
          in
            if fst h \<noteq> KAA_ERR_NONE then Some (KAA_ERR_WRITE_FAILED, self, Some (snd h), w)
            else
              let got = (if log_bucket_id c = 0
                         then kaa_status_get_log_bucket_id (status c) (log_bucket_id c)
                         else (KAA_ERR_NONE, log_bucket_id c))
              in
                if fst got \<noteq> KAA_ERR_NONE
                then Some (KAA_ERR_BAD_STATE, Some (c\<lparr> log_bucket_id := snd got \<rparr>),
                           Some (snd h), w)
                else
                  let c1 = c\<lparr> log_bucket_id := snd got + 1 \<rparr>;
                      wr1 = snd h
                  in
     (case store_bytes (current wr1) (be16 (log_bucket_id c1)) (buffer wr1) of
        None \<Rightarrow> None
      | Some m1 \<Rightarrow>
          if length m1 < current wr1 + 4 then None
          else
            let records_count_p = current wr1 + 2;
                wr2 = wr1\<lparr> buffer := m1, current := current wr1 + 4 \<rparr>;
                remaining_size = max_log_block_size p;
                first = get (log_bucket_id c1) remaining_size (backend w);
                w1 = w\<lparr> backend := snd first,
                        calls := calls w
                                 @ [GET_RECORD (log_bucket_id c1) remaining_size (fst first)] \<rparr>
            in
     (case records_loop st get (log_bucket_id c1) wr2 remaining_size 0 (fst first) w1 of
        None \<Rightarrow> None
      | Some (err, wr3, remaining_size1, records_count, w2) \<Rightarrow>
          if err \<noteq> KAA_ERR_NONE then Some (err, Some c1, Some wr3, w2)
          else
            let total_size1 = total_size + ucast (max_log_block_size p - remaining_size1)
            in
     (case store_bytes extension_header_size_p (be32 total_size1) (buffer wr3) of
        None \<Rightarrow> None
      | Some m2 \<Rightarrow>
     (case store_bytes records_count_p (be16 records_count) m2 of
        None \<Rightarrow> None
      | Some m3 \<Rightarrow>
          Some (KAA_ERR_NONE, Some c1, Some (wr3\<lparr> buffer := m3 \<rparr>), w2))))))))))"

subsection \<open>Handling the server's acknowledgment\<close>

definition LOGGING_RESULT_SUCCESS :: uint8_t where
  "LOGGING_RESULT_SUCCESS = 0"

definition LOGGING_RESULT_FAILURE :: uint8_t where
  "LOGGING_RESULT_FAILURE = 1"

text \<open>
  \<^verbatim>\<open>kaa_logging_handle_server_sync\<close>. The code loads the bucket id and the result
  byte through the raw \<open>current\<close> pointer and moves it 4 bytes on, without a test
  against the end of the buffer: with fewer than 4 bytes left the execution is
  undefined.
\<close>

definition kaa_logging_handle_server_sync ::
  "'s kaa_log_collector_t option \<Rightarrow> kaa_platform_message_reader_t option \<Rightarrow> uint32_t \<Rightarrow>
   size_t \<Rightarrow> 's world \<Rightarrow>
   (kaa_error_t \<times> kaa_platform_message_reader_t option \<times> 's world) option"
where
  "kaa_logging_handle_server_sync self reader extension_options extension_length w =
     (case self of
        None \<Rightarrow> Some (KAA_ERR_BADPARAM, reader, w)
      | Some c \<Rightarrow>
     (case reader of
        None \<Rightarrow> Some (KAA_ERR_BADPARAM, reader, w)
      | Some rd \<Rightarrow>
     (case log_storage c of
        None \<Rightarrow> Some (KAA_ERR_NOT_INITIALIZED, reader, w)
      | Some st \<Rightarrow>
          if length (buffer rd) < current rd + 4 then None
          else
            let id = load_be16 (bytes_at (current rd) 2 (buffer rd));
                result = buffer rd ! (current rd + 2);
                rd1 = rd\<lparr> current := current rd + 4 \<rparr>;
                w1 = (if result = LOGGING_RESULT_SUCCESS
                      then (case upload_succeeded st of
                              None \<Rightarrow> w
                            | Some f \<Rightarrow> w\<lparr> backend := f id (backend w),
                                           calls := calls w @ [UPLOAD_SUCCEEDED id] \<rparr>)
                      else notify_upload_failed st id w)
            in (case update_storage c w1 of
                  None \<Rightarrow> None
                | Some w2 \<Rightarrow> Some (KAA_ERR_NONE, Some rd1, w2)))))"

subsection \<open>Collectors that the interface can produce\<close>

text \<open>
  \<^verbatim>\<open>struct kaa_log_collector\<close> is private to \<^verbatim>\<open>kaa_logging.c\<close>: a collector comes from
  \<^verbatim>\<open>kaa_log_collector_create\<close>, and only \<^verbatim>\<open>kaa_logging_init\<close> and
  \<^verbatim>\<open>kaa_logging_request_serialize\<close> write to it afterwards.
\<close>

inductive reachable :: "'s kaa_log_collector_t \<Rightarrow> bool" where
  created:
    "kaa_log_collector_create True True garbage st cm = (KAA_ERR_NONE, Some c) \<Longrightarrow> reachable c"
| initialised:
    "reachable c \<Longrightarrow>
     kaa_logging_init (Some c) storage properties stat need_upl w = (e, Some c', w') \<Longrightarrow>
     reachable c'"
| serialised:
    "reachable c \<Longrightarrow>
     kaa_logging_request_serialize ty (Some c) writer w = Some (e, Some c', writer', w') \<Longrightarrow>
     reachable c'"

text \<open>The four dependencies that \<^verbatim>\<open>kaa_logging_init\<close> binds.\<close>

definition bound4 :: "'s kaa_log_collector_t \<Rightarrow> bool" where
  "bound4 c \<longleftrightarrow>
     log_storage c \<noteq> None \<and> log_properties c \<noteq> None
     \<and> log_storage_status c \<noteq> None \<and> is_upload_needed_fn c \<noteq> None"

text \<open>The calls that a step adds to the trace.\<close>

definition new_calls :: "'s world \<Rightarrow> 's world \<Rightarrow> call list" where
  "new_calls w w' = drop (length (calls w)) (calls w')"

text \<open>The id on which a request builds: the collector's own when it is set (non-zero),
  the persisted one otherwise.\<close>

definition bucket_base :: "'s kaa_log_collector_t \<Rightarrow> uint16_t option" where
  "bucket_base c =
     (if log_bucket_id c = 0 then map_option persisted_log_bucket_id (status c)
      else Some (log_bucket_id c))"

subsection \<open>Reading the trace\<close>

text \<open>The records that the backend handed out, the budgets it was offered, and what
  the loop charges and writes for a record.\<close>

fun returned :: "call list \<Rightarrow> kaa_log_entry_t list" where
  "returned [] = []"
| "returned (GET_RECORD bucket budget e # cs) =
     (if record_data e = None then returned cs else e # returned cs)"
| "returned (c # cs) = returned cs"

fun offered :: "call list \<Rightarrow> size_t list" where
  "offered [] = []"
| "offered (GET_RECORD bucket budget e # cs) = budget # offered cs"
| "offered (c # cs) = offered cs"

definition cost :: "kaa_log_entry_t \<Rightarrow> size_t" where
  "cost e = kaa_aligned_size_get (word_of_int (record_size e)) + 4"

definition footprint :: "kaa_log_entry_t \<Rightarrow> nat" where
  "footprint e = 4 + unat (kaa_aligned_size_get (word_of_int (record_size e)))"

fun budgets :: "size_t \<Rightarrow> kaa_log_entry_t list \<Rightarrow> size_t list" where
  "budgets b [] = [b]"
| "budgets b (e # es) = b # budgets (b - cost e) es"

text \<open>
  The contract of \<open>get_record\<close>: a record that the backend returns fits, with its size
  field and its padding, within the budget that the call offered.
\<close>

definition fits :: "kaa_log_entry_t \<Rightarrow> size_t \<Rightarrow> bool" where
  "fits e budget \<longleftrightarrow>
     0 \<le> record_size e \<and> 4 * ((nat (record_size e) + 3) div 4) + 4 \<le> unat budget"

definition conforming :: "(uint16_t \<Rightarrow> size_t \<Rightarrow> 's \<Rightarrow> kaa_log_entry_t \<times> 's) \<Rightarrow> bool" where
  "conforming get \<longleftrightarrow>
     (\<forall>bucket budget s. record_data (fst (get bucket budget s)) \<noteq> None
        \<longrightarrow> fits (fst (get bucket budget s)) budget)"

subsection \<open>A first-in first-out backend\<close>

text \<open>
  A backend that keeps the contract, for the scenarios: records wait in arrival order,
  \<open>get_record\<close> hands out the oldest one if it fits the budget and remembers the bucket
  it went into, an acknowledgment drops the bucket and a failure puts it back.
\<close>

record fifo =
  pending :: "kaa_log_entry_t list"
  in_flight :: "(uint16_t \<times> kaa_log_entry_t) list"

definition no_record :: kaa_log_entry_t where
  "no_record = \<lparr> record_data = None, record_size = 0 \<rparr>"

definition fifo_get_record :: "uint16_t \<Rightarrow> size_t \<Rightarrow> fifo \<Rightarrow> kaa_log_entry_t \<times> fifo" where
  "fifo_get_record bucket budget s =
     (case pending s of
        [] \<Rightarrow> (no_record, s)
      | r # rs \<Rightarrow>
          if record_data r \<noteq> None \<and> fits r budget
          then (r, s\<lparr> pending := rs, in_flight := in_flight s @ [(bucket, r)] \<rparr>)
          else (no_record, s))"

fun fifo_shrink :: "nat \<Rightarrow> kaa_log_entry_t list \<Rightarrow> kaa_log_entry_t list" where
  "fifo_shrink n [] = []"
| "fifo_shrink n (r # rs) =
     (if sum_list (map (\<lambda>e. nat (record_size e)) (r # rs)) \<le> n then r # rs
      else fifo_shrink n rs)"

definition fifo_storage :: "fifo kaa_log_storage_t" where
  "fifo_storage =
     \<lparr> add_log_record = (\<lambda>r s. s\<lparr> pending := pending s @ [r] \<rparr>),
       get_record = Some fifo_get_record,
       upload_succeeded =
         Some (\<lambda>bucket s. s\<lparr> in_flight := filter (\<lambda>x. fst x \<noteq> bucket) (in_flight s) \<rparr>),
       upload_failed =
         Some (\<lambda>bucket s.
                 s\<lparr> pending := map snd (filter (\<lambda>x. fst x = bucket) (in_flight s)) @ pending s,
                    in_flight := filter (\<lambda>x. fst x \<noteq> bucket) (in_flight s) \<rparr>),
       shrink_to_size = (\<lambda>n s. s\<lparr> pending := fifo_shrink (unat n) (pending s) \<rparr>),
       destroy = (\<lambda>s. \<lparr> pending = [], in_flight = [] \<rparr>) \<rparr>"

definition fifo_total_size :: "fifo \<Rightarrow> size_t" where
  "fifo_total_size s = of_nat (sum_list (map (\<lambda>e. nat (record_size e)) (pending s)))"

definition fifo_records_count :: "fifo \<Rightarrow> uint16_t" where
  "fifo_records_count s = of_nat (length (pending s))"

definition fifo_status :: "fifo kaa_storage_status_t" where
  "fifo_status =
     \<lparr> get_total_size = Some fifo_total_size,
       get_records_count = Some fifo_records_count \<rparr>"

text \<open>A decision function of the usual kind: clean up above the storage volume, upload
  once a block is full.\<close>

definition threshold_decision ::
  "kaa_log_upload_properties_t \<Rightarrow> fifo log_upload_decision_fn" where
  "threshold_decision p sv s =
     (case sv of
        None \<Rightarrow> NOOP
      | Some v \<Rightarrow>
          (case get_total_size v of
             None \<Rightarrow> NOOP
           | Some total_size \<Rightarrow>
               if max_log_storage_volume p < total_size s then CLEANUP
               else if max_log_block_size p \<le> total_size s then UPLOAD
               else NOOP))"

text \<open>The scenario's set-up: properties of 1000 and 100 bytes, a fresh collector bound
  to the first-in first-out backend, an allocator that always succeeds, and application
  records that fill their block with the byte \<open>0xAB\<close>.\<close>

definition scenario_properties :: kaa_log_upload_properties_t where
  "scenario_properties = \<lparr> max_log_storage_volume = 1000, max_log_block_size = 100 \<rparr>"

definition scenario_collector :: "fifo kaa_log_collector_t" where
  "scenario_collector =
     \<lparr> log_bucket_id = 0,
       log_storage = Some fifo_storage,
       log_properties = Some scenario_properties,
       log_storage_status = Some fifo_status,
       is_upload_needed_fn = Some (threshold_decision scenario_properties),
       status = Some \<lparr> persisted_log_bucket_id = 0 \<rparr>,
       channel_manager = \<lparr> logging_sync_handler = True \<rparr> \<rparr>"

text \<open>The collector as \<^verbatim>\<open>kaa_log_collector_create\<close> leaves it, before
  \<^verbatim>\<open>kaa_logging_init\<close>.\<close>

definition blank_collector :: "fifo kaa_log_collector_t" where
  "blank_collector =
     \<lparr> log_bucket_id = 0,
       log_storage = None,
       log_properties = None,
       log_storage_status = None,
       is_upload_needed_fn = None,
       status = Some \<lparr> persisted_log_bucket_id = 0 \<rparr>,
       channel_manager = \<lparr> logging_sync_handler = True \<rparr> \<rparr>"

definition scenario_platform :: kaa_platform where
  "scenario_platform =
     \<lparr> KAA_MALLOC = (\<lambda>n. Some (replicate n 0)), avro_writer_memory = (\<lambda>n. True) \<rparr>"

definition user_record :: "int \<Rightarrow> kaa_user_log_record_t" where
  "user_record n = \<lparr> get_size = n, serialize = map (\<lambda>b. 0xAB) \<rparr>"

definition empty_world :: "fifo world" where
  "empty_world = \<lparr> backend = \<lparr> pending = [], in_flight = [] \<rparr>, calls = [] \<rparr>"

definition fresh_writer :: "nat \<Rightarrow> kaa_platform_message_writer_t" where
  "fresh_writer n = \<lparr> buffer = replicate n 0, current = 0 \<rparr>"

text \<open>Adding records one after the other, as long as each call returns.\<close>

fun add_records ::
  "kaa_platform \<Rightarrow> 's kaa_log_collector_t \<Rightarrow> kaa_user_log_record_t list \<Rightarrow> 's world \<Rightarrow>
   's world option" where
  "add_records pf c [] w = Some w"
| "add_records pf c (e # es) w =
     (case kaa_logging_add_record pf (Some c) (Some e) w of
        None \<Rightarrow> None
      | Some (err, w1) \<Rightarrow> add_records pf c es w1)"

text \<open>The records of sizes 10, 50 and 60 as the backend holds them, and the world once
  the three have been added to the empty backend.\<close>

definition stored :: "int \<Rightarrow> kaa_log_entry_t" where
  "stored n = \<lparr> record_data = Some (replicate (nat n) 0xAB), record_size = n \<rparr>"

definition scenario_world :: "fifo world" where
  "scenario_world =
     \<lparr> backend = \<lparr> pending = [stored 10, stored 50, stored 60], in_flight = [] \<rparr>,
       calls = [ADD_LOG_RECORD (stored 10), IS_UPLOAD_NEEDED,
                ADD_LOG_RECORD (stored 50), IS_UPLOAD_NEEDED,
                ADD_LOG_RECORD (stored 60), IS_UPLOAD_NEEDED, SYNC] \<rparr>"

text \<open>A collector whose status view is bound but offers neither getter.\<close>

definition getterless_collector :: "fifo kaa_log_collector_t" where
  "getterless_collector =
     scenario_collector\<lparr> log_storage_status :=
        Some \<lparr> get_total_size = None, get_records_count = None \<rparr> \<rparr>"

text \<open>An acknowledgment as the server sends it: bucket id, result code, one byte of
  padding.\<close>

definition ack_reader :: "uint16_t \<Rightarrow> uint8_t \<Rightarrow> kaa_platform_message_reader_t" where
  "ack_reader bucket code = \<lparr> buffer = be16 bucket @ [code, 0], current = 0 \<rparr>"

text \<open>The loop is entered with an entry already fetched: it counts if it is a record.
  A trace made of \<open>get_record\<close> calls for one bucket, and the trace that the
  test-and-call of \<open>upload_failed\<close> leaves.\<close>

definition held :: "kaa_log_entry_t \<Rightarrow> kaa_log_entry_t list" where
  "held e = (if record_data e = None then [] else [e])"

fun is_get :: "uint16_t \<Rightarrow> call \<Rightarrow> bool" where
  "is_get b (GET_RECORD bucket budget e) = (bucket = b)"
| "is_get b c = False"

definition notification :: "'s kaa_log_storage_t \<Rightarrow> uint16_t \<Rightarrow> call list" where
  "notification st b = (case upload_failed st of None \<Rightarrow> [] | Some f \<Rightarrow> [UPLOAD_FAILED b])"

text \<open>
  What a run of the record loop leaves, read off the trace: \<open>evs\<close> are the
  \<open>get_record\<close> calls made by the run and \<open>w0\<close> is the world after the last of them.
  The run either ends at the sentinel, having written every record handed out, or
  stops at the record that the buffer cannot take and notifies the backend.
\<close>

definition loop_summary ::
  "'s kaa_log_storage_t \<Rightarrow> uint16_t \<Rightarrow> kaa_platform_message_writer_t \<Rightarrow> size_t \<Rightarrow> uint16_t \<Rightarrow>
   kaa_log_entry_t \<Rightarrow> 's world \<Rightarrow>
   kaa_error_t \<times> kaa_platform_message_writer_t \<times> size_t \<times> uint16_t \<times> 's world \<Rightarrow>
   call list \<Rightarrow> 's world \<Rightarrow> bool" where
  "loop_summary st b wr rem cnt entry w r evs w0 \<longleftrightarrow>
     (case r of (err, wr', rem', cnt', w') \<Rightarrow>
        list_all (is_get b) evs
      \<and> calls w0 = calls w @ evs
      \<and> length (buffer wr') = length (buffer wr)
      \<and> take (current wr) (buffer wr') = take (current wr) (buffer wr)
      \<and> rem' = rem - sum_list (map cost (held entry @ returned evs))
      \<and> cnt' = cnt + of_nat (length (held entry @ returned evs))
      \<and> (err = KAA_ERR_NONE \<and> w' = w0
           \<and> offered evs = tl (budgets rem (held entry @ returned evs))
           \<and> current wr' = current wr + sum_list (map footprint (held entry @ returned evs))
           \<and> (current wr \<le> length (buffer wr) \<longrightarrow> current wr' \<le> length (buffer wr))
         \<or> err = KAA_ERR_WRITE_FAILED \<and> w' = notify_upload_failed st b w0
           \<and> length (buffer wr) < current wr + sum_list (map footprint (held entry @ returned evs))))"

text \<open>
  What a request that got past the header and obtained its bucket id \<open>b\<close> leaves:
  \<open>evs\<close> are all the \<open>get_record\<close> calls of the request, \<open>w0\<close> the world after
  the last of them, \<open>wrf\<close> the writer at the end. The length field lies 4 bytes, the
  bucket id 8 bytes and the record count 10 bytes after the start of the extension.
\<close>

definition request_summary ::
  "'s kaa_log_storage_t \<Rightarrow> kaa_log_upload_properties_t \<Rightarrow> uint16_t \<Rightarrow>
   kaa_platform_message_writer_t \<Rightarrow> 's world \<Rightarrow> kaa_error_t \<Rightarrow>
   kaa_platform_message_writer_t \<Rightarrow> 's world \<Rightarrow> call list \<Rightarrow> 's world \<Rightarrow> bool" where
  "request_summary st p b wr w err wrf w' evs w0 \<longleftrightarrow>
       list_all (is_get b) evs
     \<and> calls w0 = calls w @ evs
     \<and> current wr + 12 \<le> length (buffer wr)
     \<and> length (buffer wrf) = length (buffer wr)
     \<and> take (current wr) (buffer wrf) = take (current wr) (buffer wr)
     \<and> bytes_at (current wr + 8) 2 (buffer wrf) = be16 b
     \<and> (err = KAA_ERR_NONE \<and> w' = w0
          \<and> offered evs = budgets (max_log_block_size p) (returned evs)
          \<and> current wrf = current wr + 12 + sum_list (map footprint (returned evs))
          \<and> current wrf \<le> length (buffer wr)
          \<and> bytes_at (current wr + 4) 4 (buffer wrf)
              = be32 (4 + ucast (sum_list (map cost (returned evs))))
          \<and> bytes_at (current wr + 10) 2 (buffer wrf)
              = be16 (of_nat (length (returned evs)))
        \<or> err = KAA_ERR_WRITE_FAILED \<and> w' = notify_upload_failed st b w0
          \<and> length (buffer wr) < current wr + 12 + sum_list (map footprint (returned evs))
          \<and> bytes_at (current wr + 4) 4 (buffer wrf) = be32 0)"

text \<open>
  What a request leaves on the wire, for the scenarios: the error code, the three
  back-patched or stored fields (extension length, bucket id, record count) and the
  number of bytes by which \<open>current\<close> moved.
\<close>

definition emitted ::
  "uint8_t \<Rightarrow> 's kaa_log_collector_t \<Rightarrow> kaa_platform_message_writer_t \<Rightarrow> 's world \<Rightarrow>
   (kaa_error_t \<times> uint8_t list \<times> uint8_t list \<times> uint8_t list \<times> nat) option" where
  "emitted ty c wr w =
     (case kaa_logging_request_serialize ty (Some c) (Some wr) w of
        Some (err, c', Some wr', w') \<Rightarrow>
          Some (err,
                bytes_at (current wr + 4) 4 (buffer wr'),
                bytes_at (current wr + 8) 2 (buffer wr'),
                bytes_at (current wr + 10) 2 (buffer wr'),
                current wr' - current wr)
      | _ \<Rightarrow> None)"

text \<open>The whole outcome of a request, with the collector reduced to its bucket id (the
  only field that a request changes).\<close>

definition outcome ::
  "uint8_t \<Rightarrow> 's kaa_log_collector_t \<Rightarrow> kaa_platform_message_writer_t \<Rightarrow> 's world \<Rightarrow>
   (kaa_error_t \<times> uint16_t \<times> kaa_platform_message_writer_t \<times> 's world) option" where
  "outcome ty c wr w =
     (case kaa_logging_request_serialize ty (Some c) (Some wr) w of
        Some (err, Some c', Some wr', w') \<Rightarrow> Some (err, log_bucket_id c', wr', w')
      | _ \<Rightarrow> None)"

text \<open>The bucket id that the collector holds after a request, and the one that the
  durable status storage holds then.\<close>

definition bucket_ids_after ::
  "uint8_t \<Rightarrow> 's kaa_log_collector_t \<Rightarrow> kaa_platform_message_writer_t \<Rightarrow> 's world \<Rightarrow>
   (uint16_t \<times> uint16_t option) option" where
  "bucket_ids_after ty c wr w =
     (case kaa_logging_request_serialize ty (Some c) (Some wr) w of
        Some (err, Some c', wr', w') \<Rightarrow>
          Some (log_bucket_id c', map_option persisted_log_bucket_id (status c'))
      | _ \<Rightarrow> None)"

text \<open>
  Successive requests on one collector, each with its own writer and with the world as
  it is at that moment (records may have been added and acknowledgments handled in
  between). The result lists the bucket ids of the requests that were emitted, read
  back from the wire, and carries the collector as the last request leaves it.
\<close>

fun serialize_all ::
  "uint8_t \<Rightarrow> 's kaa_log_collector_t \<Rightarrow> (kaa_platform_message_writer_t \<times> 's world) list \<Rightarrow>
   (uint16_t list \<times> 's kaa_log_collector_t) option" where
  "serialize_all ty c [] = Some ([], c)"
| "serialize_all ty c ((wr, w) # reqs) =
     (case kaa_logging_request_serialize ty (Some c) (Some wr) w of
        Some (err, Some c1, Some wr1, w1) \<Rightarrow>
          (case serialize_all ty c1 reqs of
             None \<Rightarrow> None
           | Some (ids, c2) \<Rightarrow>
               Some ((if err = KAA_ERR_NONE
                      then [load_be16 (bytes_at (current wr + 8) 2 (buffer wr1))]
                      else []) @ ids, c2))
      | _ \<Rightarrow> None)"

text \<open>A backend holding one record of 96 bytes, which fills a block of 100 bytes
  exactly.\<close>

definition full_block_world :: "fifo world" where
  "full_block_world = \<lparr> backend = \<lparr> pending = [stored 96], in_flight = [] \<rparr>, calls = [] \<rparr>"

text \<open>
  The writer and the world as the scenario's request leaves them: header, length 76,
  bucket id 1, count 2, then the two records with their size fields and padding; the
  record of 60 bytes still pending.
\<close>

definition scenario_sent :: "uint8_t \<Rightarrow> kaa_platform_message_writer_t" where
  "scenario_sent ty =
     \<lparr> buffer = [ty, 0, 0, 1] @ be32 76 @ be16 1 @ be16 2
                 @ host32 10 @ replicate 10 0xAB @ [0, 0]
                 @ host32 50 @ replicate 50 0xAB @ [0, 0]
                 @ replicate 36 0,
       current = 84 \<rparr>"

definition scenario_sent_world :: "fifo world" where
  "scenario_sent_world =
     \<lparr> backend = \<lparr> pending = [stored 60],
                   in_flight = [(1, stored 10), (1, stored 50)] \<rparr>,
       calls = calls scenario_world
               @ [GET_RECORD 1 100 (stored 10), GET_RECORD 1 84 (stored 50),
                  GET_RECORD 1 28 no_record] \<rparr>"

text \<open>
  The same request into a writer of 30 bytes: the first record is written, the size
  field of the second does not fit, the length and the count are not back-patched,
  and the backend, notified, has put the two records back.
\<close>

definition short_sent :: "uint8_t \<Rightarrow> kaa_platform_message_writer_t" where
  "short_sent ty =
     \<lparr> buffer = [ty, 0, 0, 1] @ be32 0 @ be16 1 @ [0, 0]
                 @ host32 10 @ replicate 10 0xAB @ [0, 0]
                 @ replicate 2 0,
       current = 28 \<rparr>"

definition short_sent_world :: "fifo world" where
  "short_sent_world =
     \<lparr> backend = \<lparr> pending = [stored 10, stored 50, stored 60], in_flight = [] \<rparr>,
       calls = calls scenario_world
               @ [GET_RECORD 1 100 (stored 10), GET_RECORD 1 84 (stored 50),
                  UPLOAD_FAILED 1] \<rparr>"

text \<open>Four requests in a row on the scenario's collector: one that is emitted, one
  whose writer cannot take the header, one whose writer cannot take the second record,
  and one that is emitted with no record.\<close>

definition scenario_requests :: "(kaa_platform_message_writer_t \<times> fifo world) list" where
  "scenario_requests =
     [(fresh_writer 120, scenario_world), (fresh_writer 4, scenario_world),
      (fresh_writer 30, scenario_world), (fresh_writer 120, empty_world)]"

text \<open>
  The world after the scenario's request has been acknowledged: with Success the two
  records in flight are gone and the 60 bytes left call for no action; with a failure
  code they are pending again and the 120 bytes call for an upload. A crowded backend,
  1200 bytes pending and one record in flight, and what a Success acknowledgment
  leaves of it once the policy has asked for a clean-up down to 1000 bytes.
\<close>

definition acked_world :: "fifo world" where
  "acked_world =
     \<lparr> backend = \<lparr> pending = [stored 60], in_flight = [] \<rparr>,
       calls = calls scenario_sent_world @ [UPLOAD_SUCCEEDED 1, IS_UPLOAD_NEEDED] \<rparr>"

definition nacked_world :: "fifo world" where
  "nacked_world =
     \<lparr> backend = \<lparr> pending = [stored 10, stored 50, stored 60], in_flight = [] \<rparr>,
       calls = calls scenario_sent_world @ [UPLOAD_FAILED 1, IS_UPLOAD_NEEDED, SYNC] \<rparr>"

definition crowded_world :: "fifo world" where
  "crowded_world =
     \<lparr> backend = \<lparr> pending = [stored 600, stored 600], in_flight = [(1, stored 10)] \<rparr>,
       calls = [] \<rparr>"

definition cleaned_world :: "fifo world" where
  "cleaned_world =
     \<lparr> backend = \<lparr> pending = [stored 600], in_flight = [] \<rparr>,
       calls = [UPLOAD_SUCCEEDED 1, IS_UPLOAD_NEEDED, GET_TOTAL_SIZE, SHRINK_TO_SIZE 1000] \<rparr>"

section \<open>Properties\<close>

declare records_loop.simps [simp del]


subsection \<open>The dependencies are bound together\<close>

lemma init_inv:
  "kaa_logging_init (Some c) storage properties stat need_upl w = (e, Some c', w') \<Longrightarrow>
   (log_storage c = None \<and> log_properties c = None \<and> log_storage_status c = None) \<or> bound4 c \<Longrightarrow>
   (log_storage c' = None \<and> log_properties c' = None \<and> log_storage_status c' = None) \<or> bound4 c'"
  by (auto simp: kaa_logging_init_def bound4_def Let_def split: if_splits option.splits)

lemma serialize_fields:
  "kaa_logging_request_serialize ty (Some c) writer w = Some (e, Some c', writer', w') \<Longrightarrow>
   c' = c\<lparr> log_bucket_id := log_bucket_id c' \<rparr>"
  unfolding kaa_logging_request_serialize_def Let_def
  by (auto split: option.splits if_splits prod.splits)

lemma reachable_inv:
  "reachable c \<Longrightarrow>
   (log_storage c = None \<and> log_properties c = None \<and> log_storage_status c = None) \<or> bound4 c"
proof (induction rule: reachable.induct)
  case (created garbage st cm c)
  then show ?case by (auto simp: kaa_log_collector_create_def)
next
  case (initialised c storage properties stat need_upl w e c' w')
  then show ?case using init_inv by blast
next
  case (serialised c ty writer w e c' writer' w')
  have "c' = c\<lparr> log_bucket_id := log_bucket_id c' \<rparr>"
    using serialize_fields[OF serialised.hyps(2)] .
  then have "log_storage c' = log_storage c" "log_properties c' = log_properties c"
    "log_storage_status c' = log_storage_status c" "is_upload_needed_fn c' = is_upload_needed_fn c"
    by (metis kaa_log_collector_t.select_convs kaa_log_collector_t.surjective
          kaa_log_collector_t.update_convs)+
  then show ?case using serialised.IH by (simp add: bound4_def)
qed

lemma blank_collector_reachable: "reachable blank_collector"
  by (rule created [of None "Some \<lparr> persisted_log_bucket_id = 0 \<rparr>"
                      "\<lparr> logging_sync_handler = True \<rparr>"])
     (simp add: kaa_log_collector_create_def blank_collector_def)

lemma scenario_collector_reachable: "reachable scenario_collector"
  by (rule initialised [OF blank_collector_reachable,
        of "Some fifo_storage" "Some scenario_properties" "Some fifo_status"
           "Some (threshold_decision scenario_properties)" empty_world KAA_ERR_NONE _ empty_world])
     (simp add: kaa_logging_init_def blank_collector_def scenario_collector_def)

lemma scenario_collector_bound4: "bound4 scenario_collector"
  by (simp add: bound4_def scenario_collector_def)

lemma blank_collector_not_bound4: "\<not> bound4 blank_collector"
  by (simp add: bound4_def blank_collector_def)

lemma update_storage_explicit:
  assumes "is_upload_needed_fn c = Some needed" and "log_storage c = Some st"
    and "log_storage_status c = Some sv" and "log_properties c = Some p"
  shows "update_storage c w =
     (case needed (Some sv) (backend w) of
        NOOP \<Rightarrow> Some (w\<lparr> calls := calls w @ [IS_UPLOAD_NEEDED] \<rparr>)
      | UPLOAD \<Rightarrow>
          Some (if logging_sync_handler (channel_manager c)
                then w\<lparr> calls := calls w @ [IS_UPLOAD_NEEDED, SYNC] \<rparr>
                else w\<lparr> calls := calls w @ [IS_UPLOAD_NEEDED] \<rparr>)
      | CLEANUP \<Rightarrow>
          (case get_total_size sv of
             None \<Rightarrow> None
           | Some g \<Rightarrow>
               Some (w\<lparr> backend := shrink_to_size st (max_log_storage_volume p) (backend w),
                        calls := calls w @ [IS_UPLOAD_NEEDED, GET_TOTAL_SIZE,
                                            SHRINK_TO_SIZE (max_log_storage_volume p)] \<rparr>)))"
  using assms
  by (simp add: update_storage_def kaa_channel_manager_get_sync_handler_def Let_def
           split: kaa_log_upload_decision_t.splits option.splits)

lemma update_storage_defined:
  assumes "bound4 c" and "\<forall>sv. log_storage_status c = Some sv \<longrightarrow> get_total_size sv \<noteq> None"
  shows "\<exists>w'. update_storage c w = Some w'"
proof -
  from assms(1) obtain needed st sv p where
    b: "is_upload_needed_fn c = Some needed" "log_storage c = Some st"
       "log_storage_status c = Some sv" "log_properties c = Some p"
    by (auto simp: bound4_def)
  from assms(2) b(3) obtain g where "get_total_size sv = Some g" by auto
  then show ?thesis
    unfolding update_storage_explicit[OF b]
    by (simp split: kaa_log_upload_decision_t.splits)
qed

subsection \<open>Record ingestion\<close>

text \<open>
  Claim C5. On a collector that the interface can produce, \<^verbatim>\<open>kaa_logging_add_record\<close>
  returns the not-ready error (\<^verbatim>\<open>KAA_ERR_BAD_STATE\<close>) and leaves the backend and the
  trace as they were whenever one of the four dependencies (storage, properties, status
  view, decision function) is unbound. When all four are bound the call gets past the
  check: it never returns the not-ready error, and it does return, with another code,
  whenever the status view offers \<open>get_total_size\<close> (without that getter a clean-up
  decision makes the code call through a null pointer). The check itself tests three of
  the four pointers; the properties are bound whenever the storage is, because
  \<^verbatim>\<open>kaa_logging_init\<close> binds the four together.
\<close>

theorem add_record_not_ready:
  assumes "reachable c"
  shows "(\<not> bound4 c \<longrightarrow>
            kaa_logging_add_record pf (Some c) (Some e) w = Some (KAA_ERR_BAD_STATE, w))
       \<and> (bound4 c \<longrightarrow>
            (\<forall>w'. kaa_logging_add_record pf (Some c) (Some e) w \<noteq> Some (KAA_ERR_BAD_STATE, w')))
       \<and> (bound4 c \<and> (\<forall>sv. log_storage_status c = Some sv \<longrightarrow> get_total_size sv \<noteq> None) \<longrightarrow>
            (\<exists>err w'. kaa_logging_add_record pf (Some c) (Some e) w = Some (err, w')
                      \<and> err \<noteq> KAA_ERR_BAD_STATE))"
proof (intro conjI impI)
  assume "\<not> bound4 c"
  with reachable_inv[OF assms] have "log_storage c = None" by blast
  then show "kaa_logging_add_record pf (Some c) (Some e) w = Some (KAA_ERR_BAD_STATE, w)"
    by (simp add: kaa_logging_add_record_def)
next
  assume b: "bound4 c"
  then show "\<forall>w'. kaa_logging_add_record pf (Some c) (Some e) w \<noteq> Some (KAA_ERR_BAD_STATE, w')"
    by (auto simp: kaa_logging_add_record_def bound4_def Let_def split: option.splits if_splits)
next
  assume "bound4 c \<and> (\<forall>sv. log_storage_status c = Some sv \<longrightarrow> get_total_size sv \<noteq> None)"
  then have b: "bound4 c"
    and g: "\<forall>sv. log_storage_status c = Some sv \<longrightarrow> get_total_size sv \<noteq> None" by simp_all
  from b obtain st where st: "log_storage c = Some st" by (auto simp: bound4_def)
  show "\<exists>err w'. kaa_logging_add_record pf (Some c) (Some e) w = Some (err, w')
                      \<and> err \<noteq> KAA_ERR_BAD_STATE"
  proof (cases "0 < get_size e")
    case False
    with b st show ?thesis by (simp add: kaa_logging_add_record_def bound4_def)
  next
    case True
    show ?thesis
    proof (cases "KAA_MALLOC pf (nat (get_size e))")
      case None
      with True b st show ?thesis by (simp add: kaa_logging_add_record_def bound4_def)
    next
      case (Some block)
      show ?thesis
      proof (cases "avro_writer_memory pf (nat (get_size e))")
        case False
        with Some True b st show ?thesis by (simp add: kaa_logging_add_record_def bound4_def)
      next
        case wm: True
        let ?r = "\<lparr> record_data = Some (serialize e block), record_size = get_size e \<rparr>"
        let ?w1 = "w\<lparr> backend := add_log_record st ?r (backend w),
                      calls := calls w @ [ADD_LOG_RECORD ?r] \<rparr>"
        from update_storage_defined[OF b g, of ?w1]
        obtain w2 where "update_storage c ?w1 = Some w2" by blast
        with wm Some True b st show ?thesis
          by (simp add: kaa_logging_add_record_def bound4_def Let_def)
      qed
    qed
  qed
qed

theorem add_record_not_ready_witness:
  "reachable blank_collector \<and> \<not> bound4 blank_collector
   \<and> kaa_logging_add_record scenario_platform (Some blank_collector)
        (Some (user_record 10)) empty_world = Some (KAA_ERR_BAD_STATE, empty_world)
   \<and> reachable scenario_collector \<and> bound4 scenario_collector
   \<and> log_storage_status scenario_collector = Some fifo_status
   \<and> get_total_size fifo_status = Some fifo_total_size
   \<and> (\<exists>err w'. kaa_logging_add_record scenario_platform (Some scenario_collector)
                  (Some (user_record 10)) empty_world = Some (err, w')
                \<and> err \<noteq> KAA_ERR_BAD_STATE)
   \<and> kaa_logging_add_record scenario_platform (Some scenario_collector)
        (Some (user_record 10)) empty_world
      = Some (KAA_ERR_NONE,
              \<lparr> backend = \<lparr> pending = [stored 10], in_flight = [] \<rparr>,
                calls = [ADD_LOG_RECORD (stored 10), IS_UPLOAD_NEEDED] \<rparr>)"
proof -
  have s: "log_storage_status scenario_collector = Some fifo_status"
    and t: "get_total_size fifo_status = Some fifo_total_size"
    by (simp_all add: scenario_collector_def fifo_status_def)
  from s t
  have g: "\<forall>sv. log_storage_status scenario_collector = Some sv \<longrightarrow> get_total_size sv \<noteq> None"
    by simp
  have v: "kaa_logging_add_record scenario_platform (Some scenario_collector)
        (Some (user_record 10)) empty_world
      = Some (KAA_ERR_NONE,
              \<lparr> backend = \<lparr> pending = [stored 10], in_flight = [] \<rparr>,
                calls = [ADD_LOG_RECORD (stored 10), IS_UPLOAD_NEEDED] \<rparr>)"
    by code_simp
  from add_record_not_ready [OF blank_collector_reachable,
          of scenario_platform "user_record 10" empty_world]
        add_record_not_ready [OF scenario_collector_reachable,
          of scenario_platform "user_record 10" empty_world]
        blank_collector_reachable scenario_collector_reachable
        scenario_collector_bound4 blank_collector_not_bound4 g
  have "reachable blank_collector \<and> \<not> bound4 blank_collector
   \<and> kaa_logging_add_record scenario_platform (Some blank_collector)
        (Some (user_record 10)) empty_world = Some (KAA_ERR_BAD_STATE, empty_world)
   \<and> reachable scenario_collector \<and> bound4 scenario_collector
   \<and> (\<exists>err w'. kaa_logging_add_record scenario_platform (Some scenario_collector)
                  (Some (user_record 10)) empty_world = Some (err, w')
                \<and> err \<noteq> KAA_ERR_BAD_STATE)"
    by blast
  with s t v show ?thesis by blast
qed

text \<open>
  Claim C6. On an initialised collector, an entry whose \<open>get_size\<close> is zero or negative
  makes \<^verbatim>\<open>kaa_logging_add_record\<close> return the invalid-argument error
  (\<^verbatim>\<open>KAA_ERR_BADPARAM\<close>) with the world unchanged: the backend's state is as before and
  the trace has no new call, neither into the storage nor into the decision function.
\<close>

theorem add_record_nonpositive_size:
  assumes "bound4 c" and "get_size e \<le> 0"
  shows "kaa_logging_add_record pf (Some c) (Some e) w = Some (KAA_ERR_BADPARAM, w)"
  using assms by (auto simp: kaa_logging_add_record_def bound4_def)

theorem add_record_nonpositive_size_witness:
  "bound4 scenario_collector \<and> get_size (user_record 0) \<le> 0
   \<and> get_size (user_record (- 5)) \<le> 0
   \<and> kaa_logging_add_record scenario_platform (Some scenario_collector)
        (Some (user_record 0)) empty_world = Some (KAA_ERR_BADPARAM, empty_world)
   \<and> kaa_logging_add_record scenario_platform (Some scenario_collector)
        (Some (user_record (- 5))) empty_world = Some (KAA_ERR_BADPARAM, empty_world)"
  using add_record_nonpositive_size [OF scenario_collector_bound4,
          of "user_record 0" scenario_platform empty_world]
        add_record_nonpositive_size [OF scenario_collector_bound4,
          of "user_record (- 5)" scenario_platform empty_world]
        scenario_collector_bound4
  by (simp add: user_record_def)


subsection \<open>The size estimate\<close>

text \<open>
  Claim C9, as the spec states it (with status view and properties bound the call
  returns the estimate), fails on a collector whose status view is bound but offers no
  getters: line 175 of the source answers \<^verbatim>\<open>KAA_ERR_BAD_STATE\<close>.
\<close>

theorem get_size_counterexample:
  "log_storage_status getterless_collector \<noteq> None
   \<and> log_properties getterless_collector \<noteq> None
   \<and> kaa_profile_request_get_size (Some getterless_collector) (Some 0) empty_world
       = (KAA_ERR_BAD_STATE, Some 0)"
  by (simp add: getterless_collector_def scenario_collector_def kaa_profile_request_get_size_def)

text \<open>
  Claim C9, amended. With status view and properties bound and both getters of the
  status view present, \<^verbatim>\<open>kaa_profile_request_get_size\<close> succeeds and stores
  header size + 4 + min (\<open>max_log_block_size\<close>, count * 4 + count * 3 + total size),
  computed in \<^verbatim>\<open>size_t\<close>; with a getter missing it returns \<^verbatim>\<open>KAA_ERR_BAD_STATE\<close>;
  with the status view or the properties unbound it returns
  \<^verbatim>\<open>KAA_ERR_NOT_INITIALIZED\<close>. In the two failing cases the cell keeps its content.
\<close>

theorem get_size_estimate:
  "(log_storage_status c = None \<or> log_properties c = None \<longrightarrow>
      kaa_profile_request_get_size (Some c) (Some v) w = (KAA_ERR_NOT_INITIALIZED, Some v))
   \<and> (\<forall>sv p. log_storage_status c = Some sv \<and> log_properties c = Some p
         \<and> (get_records_count sv = None \<or> get_total_size sv = None) \<longrightarrow>
      kaa_profile_request_get_size (Some c) (Some v) w = (KAA_ERR_BAD_STATE, Some v))
   \<and> (\<forall>sv p count_fn size_fn. log_storage_status c = Some sv \<and> log_properties c = Some p
         \<and> get_records_count sv = Some count_fn \<and> get_total_size sv = Some size_fn \<longrightarrow>
      kaa_profile_request_get_size (Some c) (Some v) w =
        (KAA_ERR_NONE,
         Some (of_nat KAA_EXTENSION_HEADER_SIZE + 4
               + min (max_log_block_size p)
                     (ucast (count_fn (backend w)) * 4 + ucast (count_fn (backend w)) * 3
                      + size_fn (backend w)))))"
  by (auto simp: kaa_profile_request_get_size_def Let_def KAA_MAX_PADDING_LENGTH_def min_def
           split: option.splits)

theorem get_size_estimate_witness:
  "log_storage_status scenario_collector = Some fifo_status
   \<and> log_properties scenario_collector = Some scenario_properties
   \<and> get_records_count fifo_status = Some fifo_records_count
   \<and> get_total_size fifo_status = Some fifo_total_size
   \<and> kaa_profile_request_get_size (Some scenario_collector) (Some 0) scenario_world
       = (KAA_ERR_NONE, Some 112)
   \<and> log_properties blank_collector = None
   \<and> kaa_profile_request_get_size (Some blank_collector) (Some 0) scenario_world
       = (KAA_ERR_NOT_INITIALIZED, Some 0)"
proof -
  have h: "log_storage_status scenario_collector = Some fifo_status
         \<and> log_properties scenario_collector = Some scenario_properties
         \<and> get_records_count fifo_status = Some fifo_records_count
         \<and> get_total_size fifo_status = Some fifo_total_size"
    by (simp add: scenario_collector_def fifo_status_def)
  have b: "log_properties blank_collector = None"
    by (simp add: blank_collector_def)
  have v: "of_nat KAA_EXTENSION_HEADER_SIZE + 4
             + min (max_log_block_size scenario_properties)
                 (ucast (fifo_records_count (backend scenario_world)) * 4
                  + ucast (fifo_records_count (backend scenario_world)) * 3
                  + fifo_total_size (backend scenario_world)) = (112 :: size_t)"
    by code_simp
  from get_size_estimate [of scenario_collector 0 scenario_world] h
  have "kaa_profile_request_get_size (Some scenario_collector) (Some 0) scenario_world =
        (KAA_ERR_NONE,
         Some (of_nat KAA_EXTENSION_HEADER_SIZE + 4
               + min (max_log_block_size scenario_properties)
                   (ucast (fifo_records_count (backend scenario_world)) * 4
                    + ucast (fifo_records_count (backend scenario_world)) * 3
                    + fifo_total_size (backend scenario_world))))"
    by blast
  with v have "kaa_profile_request_get_size (Some scenario_collector) (Some 0) scenario_world
       = (KAA_ERR_NONE, Some 112)" by simp
  moreover from get_size_estimate [of blank_collector 0 scenario_world] b
  have "kaa_profile_request_get_size (Some blank_collector) (Some 0) scenario_world
       = (KAA_ERR_NOT_INITIALIZED, Some 0)" by blast
  ultimately show ?thesis using h b by simp
qed

subsection \<open>Handling the server's acknowledgment\<close>

lemma handle_sync_unfold:
  assumes "log_storage c = Some st" "current rd + 4 \<le> length (buffer rd)"
  shows "kaa_logging_handle_server_sync (Some c) (Some rd) opts len w =
     (case update_storage c
             (if buffer rd ! (current rd + 2) = LOGGING_RESULT_SUCCESS
              then (case upload_succeeded st of
                      None \<Rightarrow> w
                    | Some f \<Rightarrow>
                        w\<lparr> backend := f (load_be16 (bytes_at (current rd) 2 (buffer rd))) (backend w),
                           calls := calls w
                             @ [UPLOAD_SUCCEEDED (load_be16 (bytes_at (current rd) 2 (buffer rd)))] \<rparr>)
              else notify_upload_failed st (load_be16 (bytes_at (current rd) 2 (buffer rd))) w) of
        None \<Rightarrow> None
      | Some w2 \<Rightarrow> Some (KAA_ERR_NONE, Some (rd\<lparr> current := current rd + 4 \<rparr>), w2))"
  using assms by (simp add: kaa_logging_handle_server_sync_def Let_def)

text \<open>
  The whole call under known bindings: the world \<open>w1\<close> that the acknowledgment leaves,
  then the decision taken on the backend of \<open>w1\<close> and the action it asks for.
\<close>

lemma handle_sync_explicit:
  assumes "log_storage c = Some st" and "is_upload_needed_fn c = Some needed"
    and "log_storage_status c = Some sv" and "log_properties c = Some p"
    and "current rd + 4 \<le> length (buffer rd)"
  shows "kaa_logging_handle_server_sync (Some c) (Some rd) opts len w =
     (let B = load_be16 (bytes_at (current rd) 2 (buffer rd));
          rd1 = rd\<lparr> current := current rd + 4 \<rparr>;
          w1 = (if buffer rd ! (current rd + 2) = 0
                then (case upload_succeeded st of
                        None \<Rightarrow> w
                      | Some f \<Rightarrow> w\<lparr> backend := f B (backend w),
                                     calls := calls w @ [UPLOAD_SUCCEEDED B] \<rparr>)
                else (case upload_failed st of
                        None \<Rightarrow> w
                      | Some f \<Rightarrow> w\<lparr> backend := f B (backend w),
                                     calls := calls w @ [UPLOAD_FAILED B] \<rparr>))
      in case needed (Some sv) (backend w1) of
           NOOP \<Rightarrow> Some (KAA_ERR_NONE, Some rd1, w1\<lparr> calls := calls w1 @ [IS_UPLOAD_NEEDED] \<rparr>)
         | UPLOAD \<Rightarrow>
             Some (KAA_ERR_NONE, Some rd1,
                   if logging_sync_handler (channel_manager c)
                   then w1\<lparr> calls := calls w1 @ [IS_UPLOAD_NEEDED, SYNC] \<rparr>
                   else w1\<lparr> calls := calls w1 @ [IS_UPLOAD_NEEDED] \<rparr>)
         | CLEANUP \<Rightarrow>
             (case get_total_size sv of
                None \<Rightarrow> None
              | Some g \<Rightarrow>
                  Some (KAA_ERR_NONE, Some rd1,
                        w1\<lparr> backend := shrink_to_size st (max_log_storage_volume p) (backend w1),
                            calls := calls w1 @ [IS_UPLOAD_NEEDED, GET_TOTAL_SIZE,
                                                 SHRINK_TO_SIZE (max_log_storage_volume p)] \<rparr>)))"
  unfolding handle_sync_unfold[OF assms(1,5)] update_storage_explicit[OF assms(2,1,3,4)]
  by (simp add: Let_def notify_upload_failed_def LOGGING_RESULT_SUCCESS_def
           split: kaa_log_upload_decision_t.splits option.splits)

lemma ack_reader_facts:
  "current (ack_reader 1 code) + 4 \<le> length (buffer (ack_reader 1 code))"
  "buffer (ack_reader 1 code) ! (current (ack_reader 1 code) + 2) = code"
  "load_be16 (bytes_at (current (ack_reader 1 code)) 2 (buffer (ack_reader 1 code))) = 1"
  "current (ack_reader 1 code) = 0"
  "buffer (ack_reader 1 code) ! Suc (Suc 0) = code"
  "load_be16 (bytes_at 0 2 (buffer (ack_reader 1 code))) = 1"
  by (simp_all add: ack_reader_def be16_def load_be16_def bytes_at_def)

lemma scenario_storage: "log_storage scenario_collector = Some fifo_storage"
  by (simp add: scenario_collector_def)

lemma scenario_policy_bindings:
  "is_upload_needed_fn scenario_collector = Some (threshold_decision scenario_properties)"
  "log_storage_status scenario_collector = Some fifo_status"
  "log_properties scenario_collector = Some scenario_properties"
  "logging_sync_handler (channel_manager scenario_collector)"
  by (simp_all add: scenario_collector_def)

lemma fifo_callbacks:
  "upload_succeeded fifo_storage =
     Some (\<lambda>bucket s. s\<lparr> in_flight := filter (\<lambda>x. fst x \<noteq> bucket) (in_flight s) \<rparr>)"
  "upload_failed fifo_storage =
     Some (\<lambda>bucket s.
             s\<lparr> pending := map snd (filter (\<lambda>x. fst x = bucket) (in_flight s)) @ pending s,
                in_flight := filter (\<lambda>x. fst x \<noteq> bucket) (in_flight s) \<rparr>)"
  "shrink_to_size fifo_storage = (\<lambda>n s. s\<lparr> pending := fifo_shrink (unat n) (pending s) \<rparr>)"
  "get_total_size fifo_status = Some fifo_total_size"
  by (simp_all add: fifo_storage_def fifo_status_def)

lemma scenario_decisions:
  "threshold_decision scenario_properties (Some fifo_status)
     \<lparr> pending = [stored 60], in_flight = [] \<rparr> = NOOP"
  "threshold_decision scenario_properties (Some fifo_status)
     \<lparr> pending = [stored 10, stored 50, stored 60], in_flight = [] \<rparr> = UPLOAD"
  "threshold_decision scenario_properties (Some fifo_status)
     \<lparr> pending = [stored 600, stored 600], in_flight = [] \<rparr> = CLEANUP"
  "max_log_storage_volume scenario_properties = 1000"
  "fifo_shrink (unat (1000 :: size_t)) [stored 600, stored 600] = [stored 600]"
  "fifo_shrink 1000 [stored 600, stored 600] = [stored 600]"
  by code_simp+

text \<open>
  Claim C8. On a collector that the interface can produce and whose backend is bound,
  \<^verbatim>\<open>kaa_logging_handle_server_sync\<close> reads the bucket id \<open>B\<close> and the result code and
  moves \<open>current\<close> 4 bytes on. For the code Success it applies the backend's
  \<open>upload_succeeded\<close> to \<open>B\<close> if the backend has that callback, and leaves the world as
  it is if it has not; for the code Failure the same with \<open>upload_failed\<close>. Then it
  evaluates the decision function once, on the backend that the callback left, carries
  out the action that the decision asks for (nothing, a sync request if a handler is
  registered, or a shrink to the storage volume) and returns without error. The result
  is stated in full: the backend and the trace of the world returned are determined.
  The call has no defined result in one case only: the decision is a clean-up and the
  status view lacks \<open>get_total_size\<close>, which the code then calls through a null pointer.
\<close>

theorem handle_sync_ack:
  assumes "reachable c" and "log_storage c = Some st"
    and "current rd + 4 \<le> length (buffer rd)"
  shows "\<exists>needed sv p.
      is_upload_needed_fn c = Some needed \<and> log_storage_status c = Some sv
    \<and> log_properties c = Some p
    \<and> (let B = load_be16 (bytes_at (current rd) 2 (buffer rd));
           code = buffer rd ! (current rd + 2);
           rd1 = rd\<lparr> current := current rd + 4 \<rparr>;
           then_policy = (\<lambda>w1.
             case needed (Some sv) (backend w1) of
               NOOP \<Rightarrow>
                 Some (KAA_ERR_NONE, Some rd1, w1\<lparr> calls := calls w1 @ [IS_UPLOAD_NEEDED] \<rparr>)
             | UPLOAD \<Rightarrow>
                 Some (KAA_ERR_NONE, Some rd1,
                       if logging_sync_handler (channel_manager c)
                       then w1\<lparr> calls := calls w1 @ [IS_UPLOAD_NEEDED, SYNC] \<rparr>
                       else w1\<lparr> calls := calls w1 @ [IS_UPLOAD_NEEDED] \<rparr>)
             | CLEANUP \<Rightarrow>
                 (case get_total_size sv of
                    None \<Rightarrow> None
                  | Some g \<Rightarrow>
                      Some (KAA_ERR_NONE, Some rd1,
                            w1\<lparr> backend :=
                                  shrink_to_size st (max_log_storage_volume p) (backend w1),
                                calls := calls w1 @ [IS_UPLOAD_NEEDED, GET_TOTAL_SIZE,
                                           SHRINK_TO_SIZE (max_log_storage_volume p)] \<rparr>)))
       in (code = LOGGING_RESULT_SUCCESS \<longrightarrow>
             kaa_logging_handle_server_sync (Some c) (Some rd) opts len w
               = then_policy (case upload_succeeded st of
                                None \<Rightarrow> w
                              | Some f \<Rightarrow> w\<lparr> backend := f B (backend w),
                                             calls := calls w @ [UPLOAD_SUCCEEDED B] \<rparr>))
        \<and> (code = LOGGING_RESULT_FAILURE \<longrightarrow>
             kaa_logging_handle_server_sync (Some c) (Some rd) opts len w
               = then_policy (case upload_failed st of
                                None \<Rightarrow> w
                              | Some f \<Rightarrow> w\<lparr> backend := f B (backend w),
                                             calls := calls w @ [UPLOAD_FAILED B] \<rparr>)))"
proof -
  from reachable_inv[OF assms(1)] assms(2) have "bound4 c" by auto
  then obtain needed sv p where
    b: "is_upload_needed_fn c = Some needed" "log_storage_status c = Some sv"
       "log_properties c = Some p"
    by (auto simp: bound4_def)
  note e = handle_sync_explicit[OF assms(2) b assms(3), of opts len w]
  have "let B = load_be16 (bytes_at (current rd) 2 (buffer rd));
           code = buffer rd ! (current rd + 2);
           rd1 = rd\<lparr> current := current rd + 4 \<rparr>;
           then_policy = (\<lambda>w1.
             case needed (Some sv) (backend w1) of
               NOOP \<Rightarrow>
                 Some (KAA_ERR_NONE, Some rd1, w1\<lparr> calls := calls w1 @ [IS_UPLOAD_NEEDED] \<rparr>)
             | UPLOAD \<Rightarrow>
                 Some (KAA_ERR_NONE, Some rd1,
                       if logging_sync_handler (channel_manager c)
                       then w1\<lparr> calls := calls w1 @ [IS_UPLOAD_NEEDED, SYNC] \<rparr>
                       else w1\<lparr> calls := calls w1 @ [IS_UPLOAD_NEEDED] \<rparr>)
             | CLEANUP \<Rightarrow>
                 (case get_total_size sv of
                    None \<Rightarrow> None
                  | Some g \<Rightarrow>
                      Some (KAA_ERR_NONE, Some rd1,
                            w1\<lparr> backend :=
                                  shrink_to_size st (max_log_storage_volume p) (backend w1),
                                calls := calls w1 @ [IS_UPLOAD_NEEDED, GET_TOTAL_SIZE,
                                           SHRINK_TO_SIZE (max_log_storage_volume p)] \<rparr>)))
       in (code = LOGGING_RESULT_SUCCESS \<longrightarrow>
             kaa_logging_handle_server_sync (Some c) (Some rd) opts len w
               = then_policy (case upload_succeeded st of
                                None \<Rightarrow> w
                              | Some f \<Rightarrow> w\<lparr> backend := f B (backend w),
                                             calls := calls w @ [UPLOAD_SUCCEEDED B] \<rparr>))
        \<and> (code = LOGGING_RESULT_FAILURE \<longrightarrow>
             kaa_logging_handle_server_sync (Some c) (Some rd) opts len w
               = then_policy (case upload_failed st of
                                None \<Rightarrow> w
                              | Some f \<Rightarrow> w\<lparr> backend := f B (backend w),
                                             calls := calls w @ [UPLOAD_FAILED B] \<rparr>))"
    unfolding e
    by (simp add: Let_def LOGGING_RESULT_SUCCESS_def LOGGING_RESULT_FAILURE_def)
  with b show ?thesis by blast
qed

theorem handle_sync_ack_witness:
  "reachable scenario_collector \<and> log_storage scenario_collector = Some fifo_storage
   \<and> current (ack_reader 1 0) + 4 \<le> length (buffer (ack_reader 1 0))
   \<and> kaa_logging_handle_server_sync (Some scenario_collector) (Some (ack_reader 1 0)) 0 4
        scenario_sent_world
       = Some (KAA_ERR_NONE, Some ((ack_reader 1 0)\<lparr> current := 4 \<rparr>), acked_world)
   \<and> kaa_logging_handle_server_sync (Some scenario_collector) (Some (ack_reader 1 1)) 0 4
        scenario_sent_world
       = Some (KAA_ERR_NONE, Some ((ack_reader 1 1)\<lparr> current := 4 \<rparr>), nacked_world)
   \<and> kaa_logging_handle_server_sync (Some scenario_collector) (Some (ack_reader 1 0)) 0 4
        crowded_world
       = Some (KAA_ERR_NONE, Some ((ack_reader 1 0)\<lparr> current := 4 \<rparr>), cleaned_world)"
proof -
  from handle_sync_ack [where rd = "ack_reader 1 0" and opts = 0 and len = 4
          and w = scenario_sent_world,
          OF scenario_collector_reachable scenario_storage ack_reader_facts(1)]
  have a: "kaa_logging_handle_server_sync (Some scenario_collector) (Some (ack_reader 1 0)) 0 4
        scenario_sent_world
       = Some (KAA_ERR_NONE, Some ((ack_reader 1 0)\<lparr> current := 4 \<rparr>), acked_world)"
    by (simp add: Let_def scenario_policy_bindings fifo_callbacks ack_reader_facts
          LOGGING_RESULT_SUCCESS_def LOGGING_RESULT_FAILURE_def
          scenario_sent_world_def acked_world_def scenario_decisions)
  from handle_sync_ack [where rd = "ack_reader 1 1" and opts = 0 and len = 4
          and w = scenario_sent_world,
          OF scenario_collector_reachable scenario_storage ack_reader_facts(1)]
  have n: "kaa_logging_handle_server_sync (Some scenario_collector) (Some (ack_reader 1 1)) 0 4
        scenario_sent_world
       = Some (KAA_ERR_NONE, Some ((ack_reader 1 1)\<lparr> current := 4 \<rparr>), nacked_world)"
    by (simp add: Let_def scenario_policy_bindings fifo_callbacks ack_reader_facts
          LOGGING_RESULT_SUCCESS_def LOGGING_RESULT_FAILURE_def
          scenario_sent_world_def nacked_world_def scenario_decisions)
  from handle_sync_ack [where rd = "ack_reader 1 0" and opts = 0 and len = 4
          and w = crowded_world,
          OF scenario_collector_reachable scenario_storage ack_reader_facts(1)]
  have c: "kaa_logging_handle_server_sync (Some scenario_collector) (Some (ack_reader 1 0)) 0 4
        crowded_world
       = Some (KAA_ERR_NONE, Some ((ack_reader 1 0)\<lparr> current := 4 \<rparr>), cleaned_world)"
    by (simp add: Let_def scenario_policy_bindings fifo_callbacks ack_reader_facts
          LOGGING_RESULT_SUCCESS_def LOGGING_RESULT_FAILURE_def
          crowded_world_def cleaned_world_def scenario_decisions del: fifo_shrink.simps)
  from a n c scenario_collector_reachable scenario_storage ack_reader_facts(1) [of 0]
  show ?thesis by blast
qed

text \<open>
  Claim C10. \<^verbatim>\<open>kaa_logging_handle_server_sync\<close> never looks at \<open>extension_options\<close>
  and \<open>extension_length\<close>: whatever their values, the call gives the same result, and
  when it returns it returns without error with \<open>current\<close> moved on by exactly 4 bytes.
  Every result byte other than 0, not only 1, takes the failure path: the backend's
  \<open>upload_failed\<close> is applied to the bucket id read (if the backend has that callback),
  and the decision function is evaluated on the backend that the callback left. The
  result of the failure path is stated in full; it is undefined in one case only, a
  clean-up decision with a status view that lacks \<open>get_total_size\<close>.
\<close>

theorem handle_sync_nonzero:
  assumes "log_storage c = Some st" and "is_upload_needed_fn c = Some needed"
    and "log_storage_status c = Some sv" and "log_properties c = Some p"
    and "current rd + 4 \<le> length (buffer rd)"
  shows "(\<forall>opts len opts' len'.
            kaa_logging_handle_server_sync (Some c) (Some rd) opts len w
              = kaa_logging_handle_server_sync (Some c) (Some rd) opts' len' w)
       \<and> (\<forall>opts len err rd' w'.
            kaa_logging_handle_server_sync (Some c) (Some rd) opts len w = Some (err, rd', w')
            \<longrightarrow> err = KAA_ERR_NONE \<and> rd' = Some (rd\<lparr> current := current rd + 4 \<rparr>))
       \<and> (buffer rd ! (current rd + 2) \<noteq> 0 \<longrightarrow>
            (\<forall>opts len.
               kaa_logging_handle_server_sync (Some c) (Some rd) opts len w =
                 (let B = load_be16 (bytes_at (current rd) 2 (buffer rd));
                      rd1 = rd\<lparr> current := current rd + 4 \<rparr>;
                      w1 = (case upload_failed st of
                              None \<Rightarrow> w
                            | Some f \<Rightarrow> w\<lparr> backend := f B (backend w),
                                           calls := calls w @ [UPLOAD_FAILED B] \<rparr>)
                  in case needed (Some sv) (backend w1) of
                       NOOP \<Rightarrow>
                         Some (KAA_ERR_NONE, Some rd1,
                               w1\<lparr> calls := calls w1 @ [IS_UPLOAD_NEEDED] \<rparr>)
                     | UPLOAD \<Rightarrow>
                         Some (KAA_ERR_NONE, Some rd1,
                               if logging_sync_handler (channel_manager c)
                               then w1\<lparr> calls := calls w1 @ [IS_UPLOAD_NEEDED, SYNC] \<rparr>
                               else w1\<lparr> calls := calls w1 @ [IS_UPLOAD_NEEDED] \<rparr>)
                     | CLEANUP \<Rightarrow>
                         (case get_total_size sv of
                            None \<Rightarrow> None
                          | Some g \<Rightarrow>
                              Some (KAA_ERR_NONE, Some rd1,
                                    w1\<lparr> backend :=
                                          shrink_to_size st (max_log_storage_volume p) (backend w1),
                                        calls := calls w1 @ [IS_UPLOAD_NEEDED, GET_TOTAL_SIZE,
                                          SHRINK_TO_SIZE (max_log_storage_volume p)] \<rparr>)))))"
proof (intro conjI allI impI)
  fix opts len opts' len'
  show "kaa_logging_handle_server_sync (Some c) (Some rd) opts len w
          = kaa_logging_handle_server_sync (Some c) (Some rd) opts' len' w"
    unfolding handle_sync_explicit[OF assms] ..
next
  fix opts len err rd' w'
  assume "kaa_logging_handle_server_sync (Some c) (Some rd) opts len w = Some (err, rd', w')"
  then show "err = KAA_ERR_NONE"
    unfolding handle_sync_explicit[OF assms]
    by (auto simp: Let_def split: kaa_log_upload_decision_t.splits option.splits)
next
  fix opts len err rd' w'
  assume "kaa_logging_handle_server_sync (Some c) (Some rd) opts len w = Some (err, rd', w')"
  then show "rd' = Some (rd\<lparr> current := current rd + 4 \<rparr>)"
    unfolding handle_sync_explicit[OF assms]
    by (auto simp: Let_def split: kaa_log_upload_decision_t.splits option.splits)
next
  fix opts len
  assume "buffer rd ! (current rd + 2) \<noteq> 0"
  then show "kaa_logging_handle_server_sync (Some c) (Some rd) opts len w =
                 (let B = load_be16 (bytes_at (current rd) 2 (buffer rd));
                      rd1 = rd\<lparr> current := current rd + 4 \<rparr>;
                      w1 = (case upload_failed st of
                              None \<Rightarrow> w
                            | Some f \<Rightarrow> w\<lparr> backend := f B (backend w),
                                           calls := calls w @ [UPLOAD_FAILED B] \<rparr>)
                  in case needed (Some sv) (backend w1) of
                       NOOP \<Rightarrow>
                         Some (KAA_ERR_NONE, Some rd1,
                               w1\<lparr> calls := calls w1 @ [IS_UPLOAD_NEEDED] \<rparr>)
                     | UPLOAD \<Rightarrow>
                         Some (KAA_ERR_NONE, Some rd1,
                               if logging_sync_handler (channel_manager c)
                               then w1\<lparr> calls := calls w1 @ [IS_UPLOAD_NEEDED, SYNC] \<rparr>
                               else w1\<lparr> calls := calls w1 @ [IS_UPLOAD_NEEDED] \<rparr>)
                     | CLEANUP \<Rightarrow>
                         (case get_total_size sv of
                            None \<Rightarrow> None
                          | Some g \<Rightarrow>
                              Some (KAA_ERR_NONE, Some rd1,
                                    w1\<lparr> backend :=
                                          shrink_to_size st (max_log_storage_volume p) (backend w1),
                                        calls := calls w1 @ [IS_UPLOAD_NEEDED, GET_TOTAL_SIZE,
                                          SHRINK_TO_SIZE (max_log_storage_volume p)] \<rparr>)))"
    unfolding handle_sync_explicit[OF assms]
    by (simp add: Let_def)
qed

theorem handle_sync_nonzero_witness:
  "log_storage scenario_collector = Some fifo_storage
   \<and> is_upload_needed_fn scenario_collector = Some (threshold_decision scenario_properties)
   \<and> log_storage_status scenario_collector = Some fifo_status
   \<and> log_properties scenario_collector = Some scenario_properties
   \<and> current (ack_reader 1 7) + 4 \<le> length (buffer (ack_reader 1 7))
   \<and> buffer (ack_reader 1 7) ! (current (ack_reader 1 7) + 2) \<noteq> 0
   \<and> (\<forall>opts len.
         kaa_logging_handle_server_sync (Some scenario_collector) (Some (ack_reader 1 7)) opts len
           scenario_sent_world
           = Some (KAA_ERR_NONE, Some ((ack_reader 1 7)\<lparr> current := 4 \<rparr>), nacked_world))"
proof -
  from handle_sync_nonzero [where rd = "ack_reader 1 7" and w = scenario_sent_world,
          OF scenario_storage scenario_policy_bindings(1-3) ack_reader_facts(1),
          THEN conjunct2, THEN conjunct2]
  have "\<forall>opts len.
         kaa_logging_handle_server_sync (Some scenario_collector) (Some (ack_reader 1 7)) opts len
           scenario_sent_world
           = Some (KAA_ERR_NONE, Some ((ack_reader 1 7)\<lparr> current := 4 \<rparr>), nacked_world)"
    by (simp add: Let_def scenario_policy_bindings fifo_callbacks ack_reader_facts
          scenario_sent_world_def nacked_world_def scenario_decisions)
  then show ?thesis
    using scenario_storage scenario_policy_bindings(1-3) ack_reader_facts(1) [of 7]
    by (simp add: ack_reader_facts)
qed


subsection \<open>The record loop, one iteration at a time\<close>

lemma length_host32 [simp]: "length (host32 x) = 4"
  by (simp add: host32_def)

lemma length_be16 [simp]: "length (be16 x) = 2"
  by (simp add: be16_def)

lemma length_be32 [simp]: "length (be32 x) = 4"
  by (simp add: be32_def)

lemma take_agree_le:
  assumes "take n xs = take n ys" and "m \<le> n"
  shows "take m xs = take m ys"
proof -
  have "take m xs = take m (take n xs)" using assms(2) by (simp add: min_def)
  also have "\<dots> = take m (take n ys)" using assms(1) by simp
  also have "\<dots> = take m ys" using assms(2) by (simp add: min_def)
  finally show ?thesis .
qed

lemma write_exhausted:
  "length (buffer wr) < current wr + length d \<Longrightarrow>
   kaa_platform_message_write wr d = (KAA_ERR_WRITE_FAILED, wr)"
  by (simp add: kaa_platform_message_write_def)

lemma write_fits:
  assumes "current wr + length d \<le> length (buffer wr)"
  shows "\<exists>wr'. kaa_platform_message_write wr d = (KAA_ERR_NONE, wr')
           \<and> current wr' = current wr + length d
           \<and> length (buffer wr') = length (buffer wr)
           \<and> take (current wr) (buffer wr') = take (current wr) (buffer wr)
           \<and> take (length d) (drop (current wr) (buffer wr')) = d"
  using assms by (simp add: kaa_platform_message_write_def)

lemma write_aligned_exhausted:
  "length (buffer wr) < current wr + unat (kaa_aligned_size_get sz) \<Longrightarrow>
   kaa_platform_message_write_aligned wr data sz = Some (KAA_ERR_WRITE_FAILED, wr)"
  by (simp add: kaa_platform_message_write_aligned_def Let_def)

lemma write_aligned_fits:
  assumes "current wr + unat (kaa_aligned_size_get sz) \<le> length (buffer wr)"
    and "kaa_platform_message_write_aligned wr data sz = Some r"
  shows "\<exists>wr'. r = (KAA_ERR_NONE, wr')
           \<and> current wr' = current wr + unat (kaa_aligned_size_get sz)
           \<and> length (buffer wr') = length (buffer wr)
           \<and> take (current wr) (buffer wr') = take (current wr) (buffer wr)"
proof -
  let ?al = "unat (kaa_aligned_size_get sz)"
  let ?d = "take (unat sz) data @ replicate (?al - unat sz) 0"
  from assms have ok: "unat sz \<le> length data \<and> unat sz \<le> ?al"
    by (auto simp: kaa_platform_message_write_aligned_def Let_def split: if_splits)
  then have ld: "length ?d = ?al" by simp
  from assms ok have r: "r = kaa_platform_message_write wr ?d"
    by (simp add: kaa_platform_message_write_aligned_def Let_def)
  from write_fits[of wr ?d] assms(1) ld obtain wr' where
    "kaa_platform_message_write wr ?d = (KAA_ERR_NONE, wr')"
    "current wr' = current wr + length ?d"
    "length (buffer wr') = length (buffer wr)"
    "take (current wr) (buffer wr') = take (current wr) (buffer wr)"
    by (metis (no_types, lifting))
  with r ld show ?thesis by (metis (no_types, lifting))
qed

lemma records_loop_cases [consumes 1, case_names stop fail_size fail_data step]:
  assumes "records_loop st get b wr rem cnt entry w = Some r"
  obtains
    "record_data entry = None" "r = (KAA_ERR_NONE, wr, rem, cnt, w)"
  | "record_data entry \<noteq> None" "length (buffer wr) < current wr + 4"
    "r = (KAA_ERR_WRITE_FAILED, wr, rem - cost entry, cnt + 1, notify_upload_failed st b w)"
  | wr1 where "record_data entry \<noteq> None" "current wr + 4 \<le> length (buffer wr)"
    "length (buffer wr) < current wr + footprint entry"
    "r = (KAA_ERR_WRITE_FAILED, wr1, rem - cost entry, cnt + 1, notify_upload_failed st b w)"
    "current wr1 = current wr + 4" "length (buffer wr1) = length (buffer wr)"
    "take (current wr) (buffer wr1) = take (current wr) (buffer wr)"
  | wr2 where "record_data entry \<noteq> None" "current wr + footprint entry \<le> length (buffer wr)"
    "current wr2 = current wr + footprint entry" "length (buffer wr2) = length (buffer wr)"
    "take (current wr) (buffer wr2) = take (current wr) (buffer wr)"
    "records_loop st get b wr2 (rem - cost entry) (cnt + 1)
       (fst (get b (rem - cost entry) (backend w)))
       (w\<lparr> backend := snd (get b (rem - cost entry) (backend w)),
           calls := calls w @ [GET_RECORD b (rem - cost entry)
                                 (fst (get b (rem - cost entry) (backend w)))] \<rparr>) = Some r"
proof (cases "record_data entry")
  case None
  with assms have "r = (KAA_ERR_NONE, wr, rem, cnt, w)"
    by (simp add: records_loop.simps)
  with None that(1) show ?thesis by blast
next
  case (Some data)
  let ?sz = "word_of_int (record_size entry) :: size_t"
  let ?h = "host32 (word_of_int (record_size entry))"
  show ?thesis
  proof (cases "current wr + 4 \<le> length (buffer wr)")
    case False
    then have "kaa_platform_message_write wr ?h = (KAA_ERR_WRITE_FAILED, wr)"
      by (simp add: write_exhausted)
    with assms Some have "r = (KAA_ERR_WRITE_FAILED, wr, rem - cost entry, cnt + 1, notify_upload_failed st b w)"
      by (simp add: records_loop.simps[of st get b wr] cost_def Let_def)
    with Some False that(2) show ?thesis by force
  next
    case True
    from write_fits[of wr ?h] True obtain wr1 where
      w1: "kaa_platform_message_write wr ?h = (KAA_ERR_NONE, wr1)"
      and c1: "current wr1 = current wr + 4"
      and l1: "length (buffer wr1) = length (buffer wr)"
      and t1: "take (current wr) (buffer wr1) = take (current wr) (buffer wr)"
      by auto
    show ?thesis
    proof (cases "current wr + footprint entry \<le> length (buffer wr)")
      case False
      then have "kaa_platform_message_write_aligned wr1 data ?sz = Some (KAA_ERR_WRITE_FAILED, wr1)"
        using c1 l1 by (simp add: write_aligned_exhausted footprint_def)
      with assms Some w1 have "r = (KAA_ERR_WRITE_FAILED, wr1, rem - cost entry, cnt + 1, notify_upload_failed st b w)"
        by (simp add: records_loop.simps[of st get b wr] cost_def Let_def)
      with Some True False c1 l1 t1 that(3)[of wr1] show ?thesis by force
    next
      case fit: True
      have room: "current wr1 + unat (kaa_aligned_size_get ?sz) \<le> length (buffer wr1)"
        using fit c1 l1 by (simp add: footprint_def)
      from assms Some w1 obtain r2 where
        a2: "kaa_platform_message_write_aligned wr1 data ?sz = Some r2"
        by (cases "kaa_platform_message_write_aligned wr1 data ?sz")
           (simp_all add: records_loop.simps[of st get b wr] Let_def)
      from write_aligned_fits[OF room a2] obtain wr2 where
        r2: "r2 = (KAA_ERR_NONE, wr2)"
        and c2: "current wr2 = current wr1 + unat (kaa_aligned_size_get ?sz)"
        and l2: "length (buffer wr2) = length (buffer wr1)"
        and t2: "take (current wr1) (buffer wr2) = take (current wr1) (buffer wr1)"
        by blast
      have rec: "records_loop st get b wr2 (rem - cost entry) (cnt + 1)
           (fst (get b (rem - cost entry) (backend w)))
           (w\<lparr> backend := snd (get b (rem - cost entry) (backend w)),
           calls := calls w @ [GET_RECORD b (rem - cost entry)
                                 (fst (get b (rem - cost entry) (backend w)))] \<rparr>) = Some r"
        using assms Some w1 a2 r2
        by (simp add: records_loop.simps[of st get b wr] cost_def Let_def)
      have c2': "current wr2 = current wr + footprint entry"
        using c1 c2 by (simp add: footprint_def)
      have t2': "take (current wr) (buffer wr2) = take (current wr) (buffer wr)"
        using take_agree_le[OF t2, of "current wr"] c1 t1 by simp
      from that(4)[of wr2] Some fit c2' l1 l2 t2' rec show ?thesis by simp
    qed
  qed
qed



subsection \<open>Sizes, padding and budgets as numbers\<close>

lemma round4_eq: "(m::nat) + (4 - m mod 4) mod 4 = 4 * ((m + 3) div 4)"
proof -
  define q r where "q = m div 4" and "r = m mod 4"
  have m: "m = 4 * q + r" and r: "r < 4" by (simp_all add: q_def r_def)
  have a: "m mod 4 = r" by (simp add: r_def)
  have "(r + 3 + q * 4) div 4 = q + (r + 3) div 4" by (rule div_mult_self1) simp
  then have b: "(m + 3) div 4 = q + (r + 3) div 4" by (simp add: m ac_simps)
  from r consider "r = 0" | "r = 1" | "r = 2" | "r = 3" by linarith
  then have "4 * q + r + (4 - r) mod 4 = 4 * (q + (r + 3) div 4)"
    by cases simp_all
  then show ?thesis using a b m by simp
qed

lemma round4_le: "(m::nat) + (4 - m mod 4) mod 4 \<le> m + 3"
proof -
  have "(4 - m mod 4) mod 4 \<le> 3"
    using mod_less_divisor[of 4 "4 - m mod 4"] by linarith
  then show ?thesis by simp
qed

lemma round4_gt: "(m::nat) + 3 < 4 * ((m + 3) div 4) + 4"
proof -
  have "m + 3 = 4 * ((m + 3) div 4) + (m + 3) mod 4" by simp
  moreover have "(m + 3) mod 4 < 4" by simp
  ultimately show ?thesis by linarith
qed

lemma aligned_unat:
  fixes x :: size_t
  assumes "unat x + 3 < 2 ^ 64"
  shows "unat (kaa_aligned_size_get x) = 4 * ((unat x + 3) div 4)"
proof -
  have m4: "unat (x mod 4) = unat x mod 4" by (simp add: unat_mod)
  then have le: "x mod 4 \<le> 4" by (simp add: word_le_nat_alt)
  have s: "unat (4 - x mod 4) = 4 - unat x mod 4"
    using le m4 by (simp add: unat_sub)
  have p: "unat ((4 - x mod 4) mod 4) = (4 - unat x mod 4) mod 4"
    using s by (simp add: unat_mod)
  have "unat x + (4 - unat x mod 4) mod 4 < 2 ^ 64"
    using assms round4_le[of "unat x"] by linarith
  then have "unat x + unat ((4 - x mod 4) mod 4) < 2 ^ LENGTH(64)"
    using p by simp
  then have "unat (x + (4 - x mod 4) mod 4) = unat x + unat ((4 - x mod 4) mod 4)"
    by (rule unat_add_lem[THEN iffD1])
  then have "unat (kaa_aligned_size_get x) = unat x + (4 - unat x mod 4) mod 4"
    by (simp only: kaa_aligned_size_get_def p)
  then show ?thesis by (simp only: round4_eq)
qed


lemma cost_footprint: "cost e = of_nat (footprint e)"
  by (simp add: cost_def footprint_def)

lemma fits_footprint:
  assumes "fits e budget"
  shows "footprint e = 4 * ((nat (record_size e) + 3) div 4) + 4"
    and "footprint e \<le> unat budget"
    and "unat (budget - cost e) = unat budget - footprint e"
    and "unat (word_of_int (record_size e) :: size_t) = nat (record_size e)"
proof -
  let ?n = "nat (record_size e)"
  let ?x = "word_of_int (record_size e) :: size_t"
  from assms have nn: "0 \<le> record_size e" and b: "4 * ((?n + 3) div 4) + 4 \<le> unat budget"
    by (simp_all add: fits_def)
  have ub: "unat budget < 2 ^ 64" using unsigned_less[of budget, where 'a=nat] by simp
  have gt: "?n + 3 < 4 * ((?n + 3) div 4) + 4" by (rule round4_gt)
  with b ub have small: "?n + 3 < 2 ^ 64" by linarith
  have nb: "?n \<le> unat budget" using gt b by linarith
  have xe: "?x = of_nat ?n" by (rule word_of_int_nat[OF nn])
  have "unat (of_nat ?n :: size_t) = ?n" by (rule le_unat_uoi[OF nb])
  then show x: "unat ?x = ?n" by (simp only: xe)
  have al: "unat (kaa_aligned_size_get ?x) = 4 * ((?n + 3) div 4)"
    using aligned_unat[of ?x] small by (simp only: x)
  show fp: "footprint e = 4 * ((?n + 3) div 4) + 4"
    unfolding footprint_def al by simp
  show le: "footprint e \<le> unat budget" using fp b by simp
  have c: "unat (cost e) = footprint e"
    unfolding cost_footprint by (rule le_unat_uoi[OF le])
  have "cost e \<le> budget" using c le by (simp add: word_le_nat_alt)
  then show "unat (budget - cost e) = unat budget - footprint e"
    using c by (simp add: unat_sub)
qed



subsection \<open>The record loop as a whole\<close>

lemma footprint_ge4: "4 \<le> footprint e"
  by (simp add: footprint_def)

lemma records_loop_induct [consumes 1, case_names stop fail_size fail_data step]:
  assumes run: "records_loop st get b wr rem cnt entry w = Some r"
    and stop: "\<And>wr rem cnt entry w. record_data entry = None \<Longrightarrow>
                 P wr rem cnt entry w (KAA_ERR_NONE, wr, rem, cnt, w)"
    and fail_size: "\<And>wr rem cnt entry w. record_data entry \<noteq> None \<Longrightarrow>
                 length (buffer wr) < current wr + 4 \<Longrightarrow>
                 P wr rem cnt entry w
                   (KAA_ERR_WRITE_FAILED, wr, rem - cost entry, cnt + 1, notify_upload_failed st b w)"
    and fail_data: "\<And>wr rem cnt entry w wr1. record_data entry \<noteq> None \<Longrightarrow>
                 current wr + 4 \<le> length (buffer wr) \<Longrightarrow>
                 length (buffer wr) < current wr + footprint entry \<Longrightarrow>
                 current wr1 = current wr + 4 \<Longrightarrow>
                 length (buffer wr1) = length (buffer wr) \<Longrightarrow>
                 take (current wr) (buffer wr1) = take (current wr) (buffer wr) \<Longrightarrow>
                 P wr rem cnt entry w
                   (KAA_ERR_WRITE_FAILED, wr1, rem - cost entry, cnt + 1, notify_upload_failed st b w)"
    and step: "\<And>wr rem cnt entry w wr2 r. record_data entry \<noteq> None \<Longrightarrow>
                 current wr + footprint entry \<le> length (buffer wr) \<Longrightarrow>
                 current wr2 = current wr + footprint entry \<Longrightarrow>
                 length (buffer wr2) = length (buffer wr) \<Longrightarrow>
                 take (current wr) (buffer wr2) = take (current wr) (buffer wr) \<Longrightarrow>
                 P wr2 (rem - cost entry) (cnt + 1) (fst (get b (rem - cost entry) (backend w)))
                   (w\<lparr> backend := snd (get b (rem - cost entry) (backend w)),
                       calls := calls w @ [GET_RECORD b (rem - cost entry)
                                             (fst (get b (rem - cost entry) (backend w)))] \<rparr>) r \<Longrightarrow>
                 P wr rem cnt entry w r"
  shows "P wr rem cnt entry w r"
  using run
proof (induction "length (buffer wr) - current wr" arbitrary: wr rem cnt entry w rule: less_induct)
  case less
  from less.prems show ?case
  proof (cases rule: records_loop_cases)
    case stop
    then show ?thesis using assms(2) by simp
  next
    case fail_size
    then show ?thesis using assms(3) by simp
  next
    case (fail_data wr1)
    then show ?thesis using assms(4) by simp
  next
    case (step wr2)
    have "length (buffer wr2) - current wr2 < length (buffer wr) - current wr"
      using step(2,3,4) footprint_ge4[of entry] by linarith
    from less.hyps[OF this step(6)] step(1-5) show ?thesis
      using assms(5) by blast
  qed
qed

lemma new_calls_append [simp]: "calls w' = calls w @ evs \<Longrightarrow> new_calls w w' = evs"
  by (simp add: new_calls_def)


lemma returned_held: "returned (GET_RECORD b budget e # evs) = held e @ returned evs"
  by (simp add: held_def)

lemma budgets_head: "budgets b es = b # tl (budgets b es)"
  by (cases es) simp_all

lemma loop_summary_ex:
  assumes "records_loop st get b wr rem cnt entry w = Some r"
  shows "\<exists>evs w0. loop_summary st b wr rem cnt entry w r evs w0"
  using assms
proof (induction rule: records_loop_induct)
  case (stop wr rem cnt entry w)
  then have "loop_summary st b wr rem cnt entry w (KAA_ERR_NONE, wr, rem, cnt, w) [] w"
    by (simp add: loop_summary_def held_def)
  then show ?case by blast
next
  case (fail_size wr rem cnt entry w)
  then have "loop_summary st b wr rem cnt entry w
               (KAA_ERR_WRITE_FAILED, wr, rem - cost entry, cnt + 1, notify_upload_failed st b w) [] w"
    using footprint_ge4[of entry] by (simp add: loop_summary_def held_def)
  then show ?case by blast
next
  case (fail_data wr rem cnt entry w wr1)
  then have "loop_summary st b wr rem cnt entry w
               (KAA_ERR_WRITE_FAILED, wr1, rem - cost entry, cnt + 1, notify_upload_failed st b w) [] w"
    by (simp add: loop_summary_def held_def)
  then show ?case by blast
next
  case (step wr rem cnt entry w wr2 r)
  let ?rem1 = "rem - cost entry"
  let ?e1 = "fst (get b ?rem1 (backend w))"
  let ?g = "GET_RECORD b ?rem1 ?e1"
  let ?w1 = "w\<lparr> backend := snd (get b ?rem1 (backend w)), calls := calls w @ [?g] \<rparr>"
  from step.IH obtain evs w0 where
    ih: "loop_summary st b wr2 ?rem1 (cnt + 1) ?e1 ?w1 r evs w0" by blast
  obtain err wr' rem' cnt' w' where r: "r = (err, wr', rem', cnt', w')" by (cases r) auto
  have h: "held entry = [entry]" using step(1) by (simp add: held_def)
  have ret: "held entry @ returned (?g # evs) = entry # (held ?e1 @ returned evs)"
    by (simp only: h returned_held append_Cons append_Nil)
  have bh: "budgets ?rem1 (held ?e1 @ returned evs) = ?rem1 # tl (budgets ?rem1 (held ?e1 @ returned evs))"
    by (rule budgets_head)
  have t: "take (current wr) (buffer wr') = take (current wr) (buffer wr)"
  proof -
    from ih r have "take (current wr2) (buffer wr') = take (current wr2) (buffer wr2)"
      by (simp add: loop_summary_def)
    then have "take (current wr) (buffer wr') = take (current wr) (buffer wr2)"
      by (rule take_agree_le) (simp add: step(3))
    then show ?thesis using step(5) by simp
  qed
  have "loop_summary st b wr rem cnt entry w r (?g # evs) w0"
    unfolding loop_summary_def r prod.case ret
    using ih[unfolded loop_summary_def r prod.case] t step(2,3,4) bh
    by (auto simp: algebra_simps)
  then show ?case by blast
qed



subsection \<open>Stores into the message buffer\<close>

lemma store_Some:
  "off + length bs \<le> length m \<Longrightarrow>
   store_bytes off bs m = Some (take off m @ bs @ drop (off + length bs) m)"
  by (simp add: store_bytes_def)

lemma store_eq:
  assumes "store_bytes off bs m = Some m'"
  shows "off + length bs \<le> length m" and "m' = take off m @ bs @ drop (off + length bs) m"
proof -
  show le: "off + length bs \<le> length m"
  proof (rule ccontr)
    assume "\<not> off + length bs \<le> length m"
    then have "store_bytes off bs m = None" by (simp add: store_bytes_def)
    with assms show False by simp
  qed
  from store_Some[OF le] assms show "m' = take off m @ bs @ drop (off + length bs) m" by simp
qed

lemma store_length:
  assumes "store_bytes off bs m = Some m'"
  shows "length m' = length m"
  using store_eq[OF assms] by simp

lemma store_take:
  assumes "store_bytes off bs m = Some m'" and "k \<le> off"
  shows "take k m' = take k m"
proof -
  have "length (take off m) = off" using store_eq(1)[OF assms(1)] by simp
  then have "take off m' = take off m"
    unfolding store_eq(2)[OF assms(1)] by simp
  then show ?thesis using assms(2) by (rule take_agree_le)
qed

lemma store_same:
  assumes "store_bytes off bs m = Some m'"
  shows "bytes_at off (length bs) m' = bs"
proof -
  have "length (take off m) = off" using store_eq(1)[OF assms] by simp
  then show ?thesis unfolding store_eq(2)[OF assms] bytes_at_def by simp
qed

lemma store_after:
  assumes "store_bytes off bs m = Some m'" and "off + length bs \<le> k"
  shows "drop k m' = drop k m"
proof -
  note le = store_eq(1)[OF assms(1)] and m' = store_eq(2)[OF assms(1)]
  have "drop k m' = drop (k - off - length bs) (drop (off + length bs) m)"
    unfolding m' using assms(2) le by simp
  also have "\<dots> = drop k m" using assms(2) by simp
  finally show ?thesis .
qed

lemma bytes_at_take:
  "take k m' = take k m \<Longrightarrow> off + n \<le> k \<Longrightarrow> bytes_at off n m' = bytes_at off n m"
proof -
  assume a: "take k m' = take k m" and b: "off + n \<le> k"
  have "bytes_at off n m' = take n (drop off (take k m'))"
    unfolding bytes_at_def using b by (simp add: drop_take)
  also have "\<dots> = take n (drop off (take k m))" using a by simp
  also have "\<dots> = bytes_at off n m"
    unfolding bytes_at_def using b by (simp add: drop_take)
  finally show ?thesis .
qed

lemma store_other:
  assumes "store_bytes off bs m = Some m'"
    and "o2 + n \<le> off \<or> off + length bs \<le> o2"
  shows "bytes_at o2 n m' = bytes_at o2 n m"
proof -
  from assms(2) show ?thesis
  proof
    assume a: "o2 + n \<le> off"
    have "take off m' = take off m" by (rule store_take[OF assms(1)]) simp
    then show ?thesis using a by (rule bytes_at_take)
  next
    assume "off + length bs \<le> o2"
    then have "drop o2 m' = drop o2 m" by (rule store_after[OF assms(1)])
    then show ?thesis by (simp only: bytes_at_def)
  qed
qed

lemma write_store:
  assumes "current wr + length d \<le> length (buffer wr)"
  shows "\<exists>m. store_bytes (current wr) d (buffer wr) = Some m
           \<and> kaa_platform_message_write wr d
               = (KAA_ERR_NONE, wr\<lparr> buffer := m, current := current wr + length d \<rparr>)"
  using assms by (simp add: kaa_platform_message_write_def store_bytes_def)

lemma header_payload:
  "bytes_at 4 4 (ty # drop 1 (be32 opts) @ be32 len) = be32 len"
  by (simp add: bytes_at_def be32_def)

lemma bytes_at_bytes_at:
  "i + n \<le> k \<Longrightarrow> bytes_at (off + i) n m = bytes_at i n (bytes_at off k m)"
  by (simp add: bytes_at_def drop_take add.commute)

lemma header_write:
  assumes "current wr + 8 \<le> length (buffer wr)"
  shows "\<exists>wrh. kaa_platform_message_extension_header_write wr ty opts len = (KAA_ERR_NONE, wrh)
           \<and> current wrh = current wr + 8
           \<and> length (buffer wrh) = length (buffer wr)
           \<and> take (current wr) (buffer wrh) = take (current wr) (buffer wr)
           \<and> bytes_at (current wr + 4) 4 (buffer wrh) = be32 len"
proof -
  let ?d = "ty # drop 1 (be32 opts) @ be32 len"
  have ld: "length ?d = 8" by simp
  from write_store[of wr ?d] assms ld obtain m where
    m: "store_bytes (current wr) ?d (buffer wr) = Some m"
    and w: "kaa_platform_message_write wr ?d
               = (KAA_ERR_NONE, wr\<lparr> buffer := m, current := current wr + 8 \<rparr>)"
    by auto
  have "bytes_at (current wr) 8 m = ?d" using store_same[OF m] by (simp only: ld)
  then have "bytes_at (current wr + 4) 4 m = be32 len"
    using bytes_at_bytes_at[of 4 4 8 "current wr" m] header_payload[of ty opts len] by simp
  with w store_length[OF m] store_take[OF m, of "current wr"] show ?thesis
    by (simp add: kaa_platform_message_extension_header_write_def)
qed

lemma header_exhausted:
  assumes "length (buffer wr) < current wr + 8"
  shows "kaa_platform_message_extension_header_write wr ty opts len = (KAA_ERR_WRITE_FAILED, wr)"
  using assms by (simp add: kaa_platform_message_extension_header_write_def write_exhausted)



subsection \<open>A request as a whole\<close>

lemma serialize_unfold:
  assumes st: "log_storage c = Some st" and get: "get_record st = Some get"
    and p: "log_properties c = Some p"
    and h: "kaa_platform_message_extension_header_write wr ty KAA_LOGGING_RECEIVE_UPDATES_FLAG 0
              = (KAA_ERR_NONE, wrh)"
    and base: "bucket_base c = Some base"
  shows "kaa_logging_request_serialize ty (Some c) (Some wr) w =
     (case store_bytes (current wrh) (be16 (base + 1)) (buffer wrh) of
        None \<Rightarrow> None
      | Some m1 \<Rightarrow>
          if length m1 < current wrh + 4 then None
          else
     (case records_loop st get (base + 1) (wrh\<lparr> buffer := m1, current := current wrh + 4 \<rparr>)
             (max_log_block_size p) 0
             (fst (get (base + 1) (max_log_block_size p) (backend w)))
             (w\<lparr> backend := snd (get (base + 1) (max_log_block_size p) (backend w)),
                 calls := calls w
                   @ [GET_RECORD (base + 1) (max_log_block_size p)
                        (fst (get (base + 1) (max_log_block_size p) (backend w)))] \<rparr>) of
        None \<Rightarrow> None
      | Some (err, wr3, remaining_size1, records_count, w2) \<Rightarrow>
          if err \<noteq> KAA_ERR_NONE
          then Some (err, Some (c\<lparr> log_bucket_id := base + 1 \<rparr>), Some wr3, w2)
          else
     (case store_bytes (current wr + 4)
             (be32 (4 + ucast (max_log_block_size p - remaining_size1))) (buffer wr3) of
        None \<Rightarrow> None
      | Some m2 \<Rightarrow>
     (case store_bytes (current wrh + 2) (be16 records_count) m2 of
        None \<Rightarrow> None
      | Some m3 \<Rightarrow>
          Some (KAA_ERR_NONE, Some (c\<lparr> log_bucket_id := base + 1 \<rparr>),
                Some (wr3\<lparr> buffer := m3 \<rparr>), w2)))))"
proof (cases "log_bucket_id c = 0")
  case True
  with base have "kaa_status_get_log_bucket_id (status c) 0 = (KAA_ERR_NONE, base)"
    by (auto simp: bucket_base_def kaa_status_get_log_bucket_id_def)
  with True show ?thesis
    unfolding kaa_logging_request_serialize_def
    by (simp add: st get p h Let_def cong: option.case_cong if_cong)
next
  case False
  with base have "log_bucket_id c = base" by (simp add: bucket_base_def)
  with False show ?thesis
    unfolding kaa_logging_request_serialize_def
    by (simp add: st get p h Let_def cong: option.case_cong if_cong)
qed


lemma loop_budget:
  assumes run: "records_loop st get b wr rem cnt entry w = Some r" and conf: "conforming get"
  shows "(record_data entry \<noteq> None \<longrightarrow> fits entry rem) \<longrightarrow> fst r = KAA_ERR_NONE \<longrightarrow>
         current (fst (snd r)) + unat (fst (snd (snd r))) = current wr + unat rem"
  using run
proof (induction rule: records_loop_induct)
  case (stop wr rem cnt entry w)
  then show ?case by simp
next
  case (fail_size wr rem cnt entry w)
  then show ?case by simp
next
  case (fail_data wr rem cnt entry w wr1)
  then show ?case by simp
next
  case (step wr rem cnt entry w wr2 r)
  show ?case
  proof (intro impI)
    assume f: "record_data entry \<noteq> None \<longrightarrow> fits entry rem" and ok: "fst r = KAA_ERR_NONE"
    from f step(1) have fe: "fits entry rem" by simp
    let ?rem1 = "rem - cost entry"
    let ?e1 = "fst (get b ?rem1 (backend w))"
    from conf have "record_data ?e1 \<noteq> None \<longrightarrow> fits ?e1 ?rem1"
      by (simp add: conforming_def)
    with step.IH ok have "current (fst (snd r)) + unat (fst (snd (snd r))) = current wr2 + unat ?rem1"
      by blast
    then show "current (fst (snd r)) + unat (fst (snd (snd r))) = current wr + unat rem"
      using step(3) fits_footprint(2,3)[OF fe] by simp
  qed
qed

lemma serialize_summary:
  assumes run: "kaa_logging_request_serialize ty (Some c) (Some wr) w = Some (err, c', wr', w')"
    and st: "log_storage c = Some st" and get: "get_record st = Some get"
    and p: "log_properties c = Some p"
    and room: "current wr + 8 \<le> length (buffer wr)"
    and base: "bucket_base c = Some base"
  shows "\<exists>wrf evs w0.
           c' = Some (c\<lparr> log_bucket_id := base + 1 \<rparr>) \<and> wr' = Some wrf
         \<and> request_summary st p (base + 1) wr w err wrf w' evs w0
         \<and> (conforming get \<longrightarrow> err = KAA_ERR_NONE \<longrightarrow>
               sum_list (map footprint (returned evs)) \<le> unat (max_log_block_size p))"
proof -
  let ?cw = "current wr"
  let ?b = "base + 1"
  let ?max = "max_log_block_size p"
  from header_write[OF room, of ty KAA_LOGGING_RECEIVE_UPDATES_FLAG 0] obtain wrh where
    h: "kaa_platform_message_extension_header_write wr ty KAA_LOGGING_RECEIVE_UPDATES_FLAG 0
          = (KAA_ERR_NONE, wrh)"
    and ch: "current wrh = ?cw + 8"
    and lh: "length (buffer wrh) = length (buffer wr)"
    and th: "take ?cw (buffer wrh) = take ?cw (buffer wr)"
    and bh: "bytes_at (?cw + 4) 4 (buffer wrh) = be32 0"
    by blast
  let ?e0 = "fst (get ?b ?max (backend w))"
  let ?g0 = "GET_RECORD ?b ?max ?e0"
  let ?w1 = "w\<lparr> backend := snd (get ?b ?max (backend w)), calls := calls w @ [?g0] \<rparr>"
  note u = serialize_unfold[OF st get p h base, of w]
  obtain m1 where m1: "store_bytes (current wrh) (be16 ?b) (buffer wrh) = Some m1"
    using run u by (cases "store_bytes (current wrh) (be16 ?b) (buffer wrh)") simp_all
  have l1: "length m1 = length (buffer wr)" using store_length[OF m1] lh by simp
  have big: "\<not> length m1 < current wrh + 4"
    using run u m1 by (cases "length m1 < current wrh + 4") simp_all
  then have room12: "?cw + 12 \<le> length (buffer wr)" using l1 ch by simp
  define wr2 where "wr2 = wrh\<lparr> buffer := m1, current := current wrh + 4 \<rparr>"
  have c2: "current wr2 = ?cw + 12" and b2: "buffer wr2 = m1"
    by (simp_all add: wr2_def ch)
  obtain r where loop: "records_loop st get ?b wr2 ?max 0 ?e0 ?w1 = Some r"
    using run u m1 big unfolding wr2_def
    by (cases "records_loop st get ?b (wrh\<lparr> buffer := m1, current := current wrh + 4 \<rparr>)
                 ?max 0 ?e0 ?w1") simp_all
  obtain e wr3 rem1 cnt w2 where r: "r = (e, wr3, rem1, cnt, w2)" by (cases r) auto
  from loop_summary_ex[OF loop] obtain evs0 w0 where
    "loop_summary st ?b wr2 ?max 0 ?e0 ?w1 r evs0 w0" by blast
  note s = this[unfolded loop_summary_def r prod.case c2 b2]
  let ?evs = "?g0 # evs0"
  let ?es = "returned ?evs"
  have es: "held ?e0 @ returned evs0 = ?es" by (simp only: returned_held)
  have gets: "list_all (is_get ?b) ?evs" using s by simp
  have cw0: "calls w0 = calls w @ ?evs" using s by simp
  have l3: "length (buffer wr3) = length (buffer wr)" using s l1 by simp
  have t3: "take (?cw + 12) (buffer wr3) = take (?cw + 12) m1" using s by blast
  have t1: "take ?cw m1 = take ?cw (buffer wr)"
    using store_take[OF m1, of ?cw] ch th by simp
  have t3': "take ?cw (buffer wr3) = take ?cw (buffer wr)"
    using take_agree_le[OF t3, of ?cw] t1 by simp
  have id1: "bytes_at (?cw + 8) 2 m1 = be16 ?b"
    using store_same[OF m1] ch by simp
  have id3: "bytes_at (?cw + 8) 2 (buffer wr3) = be16 ?b"
    using bytes_at_take[OF t3, of "?cw + 8" 2] id1 by simp
  have z1: "bytes_at (?cw + 4) 4 m1 = be32 0"
    using store_other[OF m1, of "?cw + 4" 4] ch bh by simp
  have z3: "bytes_at (?cw + 4) 4 (buffer wr3) = be32 0"
    using bytes_at_take[OF t3, of "?cw + 4" 4] z1 by simp
  have off: "offered ?evs = ?max # offered evs0" by simp
  have budget: "conforming get \<longrightarrow> e = KAA_ERR_NONE \<longrightarrow>
                  sum_list (map footprint ?es) \<le> unat ?max"
  proof (intro impI)
    assume conf: "conforming get" and ok: "e = KAA_ERR_NONE"
    from conf have "record_data ?e0 \<noteq> None \<longrightarrow> fits ?e0 ?max"
      by (simp add: conforming_def)
    with loop_budget[OF loop conf] ok r
    have "current wr3 + unat rem1 = ?cw + 12 + unat ?max" by (simp add: c2)
    moreover from s ok have "current wr3 = ?cw + 12 + sum_list (map footprint ?es)"
      unfolding es by simp
    ultimately show "sum_list (map footprint ?es) \<le> unat ?max" by linarith
  qed
  have e_cases: "e = KAA_ERR_NONE \<or> e = KAA_ERR_WRITE_FAILED" using s by blast
  show ?thesis
  proof (cases "e = KAA_ERR_NONE")
    case False
    with e_cases have ef: "e = KAA_ERR_WRITE_FAILED" by simp
    from run u m1 big loop[unfolded wr2_def] r False
    have res: "err = e" "c' = Some (c\<lparr> log_bucket_id := ?b \<rparr>)" "wr' = Some wr3" "w' = w2"
      by simp_all
    have "request_summary st p ?b wr w err wr3 w' ?evs w0"
      unfolding request_summary_def
      using gets cw0 room12 l3 t3' id3 z3 s[unfolded es] ef res by simp
    with res budget show ?thesis by blast
  next
    case True
    have rem1: "rem1 = ?max - sum_list (map cost ?es)" using s[unfolded es] by blast
    have cnt: "cnt = of_nat (length ?es)" using s[unfolded es] by simp
    have tot: "?max - rem1 = sum_list (map cost ?es)" unfolding rem1 by simp
    obtain m2 where m2: "store_bytes (?cw + 4) (be32 (4 + ucast (?max - rem1))) (buffer wr3) = Some m2"
      using run u m1 big loop[unfolded wr2_def] r True
      by (cases "store_bytes (?cw + 4) (be32 (4 + ucast (?max - rem1))) (buffer wr3)") simp_all
    obtain m3 where m3: "store_bytes (current wrh + 2) (be16 cnt) m2 = Some m3"
      using run u m1 big loop[unfolded wr2_def] r True m2
      by (cases "store_bytes (current wrh + 2) (be16 cnt) m2") simp_all
    from run u m1 big loop[unfolded wr2_def] r True m2 m3
    have res: "err = e" "c' = Some (c\<lparr> log_bucket_id := ?b \<rparr>)"
      "wr' = Some (wr3\<lparr> buffer := m3 \<rparr>)" "w' = w2"
      by simp_all
    have "current wrh + 2 = ?cw + 10" using ch by simp
    with m3 have m3': "store_bytes (?cw + 10) (be16 cnt) m2 = Some m3" by (simp only:)
    have lf: "length m3 = length (buffer wr)"
      using store_length[OF m3] store_length[OF m2] l3 by simp
    have tf: "take ?cw m3 = take ?cw (buffer wr)"
      using store_take[OF m3', of ?cw] store_take[OF m2, of ?cw] t3' by simp
    have len_f: "bytes_at (?cw + 4) 4 m3 = be32 (4 + ucast (sum_list (map cost ?es)))"
      using store_other[OF m3', of "?cw + 4" 4] store_same[OF m2] tot by simp
    have cnt_f: "bytes_at (?cw + 10) 2 m3 = be16 (of_nat (length ?es))"
      using store_same[OF m3'] cnt by simp
    have id_f: "bytes_at (?cw + 8) 2 m3 = be16 ?b"
      using store_other[OF m3', of "?cw + 8" 2] store_other[OF m2, of "?cw + 8" 2] id3 by simp
    have offd: "offered ?evs = budgets ?max ?es"
    proof -
      from s[unfolded es] True have "offered evs0 = tl (budgets ?max ?es)" by simp
      then have "offered ?evs = ?max # tl (budgets ?max ?es)" by simp
      then show ?thesis using budgets_head[of ?max ?es] by simp
    qed
    have cur: "current wr3 = ?cw + 12 + sum_list (map footprint ?es)"
      "current wr3 \<le> length (buffer wr)"
      using s[unfolded es] True l1 room12 by simp_all
    have "request_summary st p ?b wr w err (wr3\<lparr> buffer := m3 \<rparr>) w' ?evs w0"
      unfolding request_summary_def
      using gets cw0 room12 lf tf id_f len_f cnt_f offd cur s[unfolded es] True res by simp
    with res budget True show ?thesis by blast
  qed
qed



subsection \<open>The scenarios\<close>

text \<open>
  The closed statements below fix the extension type, which
  \<^verbatim>\<open>kaa_logging_request_serialize\<close> only copies into the first byte of the header, to
  the byte 4; none of them depends on its value.
\<close>

lemma load_be16_be16: "load_be16 (be16 x) = x"
  unfolding load_be16_def be16_def
  by (rule bit_word_eqI) (auto simp: bit_simps)

lemma ucast_of_nat_down: "(ucast (of_nat n :: size_t) :: uint32_t) = of_nat n"
  by (simp add: unsigned_of_nat word_of_nat_eq_iff)

lemma sum_cost: "sum_list (map cost es) = of_nat (sum_list (map footprint es))"
  by (induction es) (simp_all add: cost_footprint)

lemma returned_append: "returned (xs @ ys) = returned xs @ returned ys"
  by (induction xs rule: returned.induct) simp_all

lemma returned_notification: "returned (notification st b) = []"
  by (simp add: notification_def split: option.splits)

lemma notify_calls: "calls (notify_upload_failed st b w) = calls w @ notification st b"
  by (simp add: notify_upload_failed_def notification_def split: option.splits)

lemma fifo_conforming: "conforming fifo_get_record"
  by (auto simp: conforming_def fifo_get_record_def no_record_def split: list.splits)

lemma scenario_bindings:
  "log_storage scenario_collector = Some fifo_storage"
  "get_record fifo_storage = Some fifo_get_record"
  "log_properties scenario_collector = Some scenario_properties"
  "bucket_base scenario_collector = Some 0"
  by (simp_all add: scenario_collector_def fifo_storage_def bucket_base_def)

text \<open>
  Claim C2, as the spec states it, fails in one number. With properties of 1000 and
  100 bytes and the records of 10, 50 and 60 bytes added through
  \<^verbatim>\<open>kaa_logging_add_record\<close>, the request emits the records of 10 and 50 bytes and
  back-patches the record count 2, but the length it back-patches is 76, not 80: the
  code starts \<open>total_size\<close> at \<^verbatim>\<open>sizeof(uint32_t)\<close>, the bucket id and the record
  count, and adds the 16 and 56 bytes of the two records.
\<close>

theorem scenario_request_counterexample:
  "add_records scenario_platform scenario_collector
     [user_record 10, user_record 50, user_record 60] empty_world = Some scenario_world
   \<and> emitted 4 scenario_collector (fresh_writer 120) scenario_world
       = Some (KAA_ERR_NONE, be32 76, be16 1, be16 2, 84)
   \<and> be32 76 \<noteq> be32 80"
  by code_simp

text \<open>
  Claim C2, amended: in that scenario \<^verbatim>\<open>kaa_logging_request_serialize\<close> returns
  without error, emits exactly the records of 10 and 50 bytes (size field, payload,
  padding to a multiple of 4), stores the bucket id 1, back-patches the record count
  to 2 and the extension length to 76, and leaves the record of 60 bytes pending in
  the backend, the other two being in flight for bucket 1. The budgets offered to
  \<open>get_record\<close> were 100, 84 and 28.
\<close>

theorem scenario_request:
  "add_records scenario_platform scenario_collector
     [user_record 10, user_record 50, user_record 60] empty_world = Some scenario_world
   \<and> outcome ty scenario_collector (fresh_writer 120) scenario_world
     = Some (KAA_ERR_NONE, 1, scenario_sent ty, scenario_sent_world)
   \<and> bytes_at 4 4 (buffer (scenario_sent ty)) = be32 76
   \<and> bytes_at 8 2 (buffer (scenario_sent ty)) = be16 1
   \<and> bytes_at 10 2 (buffer (scenario_sent ty)) = be16 2
   \<and> returned (new_calls scenario_world scenario_sent_world) = [stored 10, stored 50]
   \<and> pending (backend scenario_sent_world) = [stored 60]"
  by code_simp

text \<open>
  Claim C4, as the spec states it, fails in one number: with nothing to send the
  request succeeds with the record count 0, but the length it back-patches is 4 (the
  bucket id and the record count), not 8.
\<close>

theorem empty_request_counterexample:
  "emitted 4 scenario_collector (fresh_writer 12) empty_world
     = Some (KAA_ERR_NONE, be32 4, be16 1, be16 0, 12)
   \<and> be32 4 \<noteq> be32 8"
  by code_simp

lemma serialize_defined_empty:
  assumes st: "log_storage c = Some st" and get: "get_record st = Some get"
    and p: "log_properties c = Some p"
    and room: "current wr + 12 \<le> length (buffer wr)"
    and base: "bucket_base c = Some base"
    and none: "record_data (fst (get (base + 1) (max_log_block_size p) (backend w))) = None"
  shows "\<exists>wrf. kaa_logging_request_serialize ty (Some c) (Some wr) w =
           Some (KAA_ERR_NONE, Some (c\<lparr> log_bucket_id := base + 1 \<rparr>), Some wrf,
                 w\<lparr> backend := snd (get (base + 1) (max_log_block_size p) (backend w)),
                    calls := calls w
                      @ [GET_RECORD (base + 1) (max_log_block_size p)
                           (fst (get (base + 1) (max_log_block_size p) (backend w)))] \<rparr>)"
proof -
  let ?cw = "current wr"
  let ?b = "base + 1"
  let ?max = "max_log_block_size p"
  have room8: "?cw + 8 \<le> length (buffer wr)" using room by simp
  from header_write[OF room8, of ty KAA_LOGGING_RECEIVE_UPDATES_FLAG 0] obtain wrh where
    h: "kaa_platform_message_extension_header_write wr ty KAA_LOGGING_RECEIVE_UPDATES_FLAG 0
          = (KAA_ERR_NONE, wrh)"
    and ch: "current wrh = ?cw + 8"
    and lh: "length (buffer wrh) = length (buffer wr)"
    by blast
  let ?e0 = "fst (get ?b ?max (backend w))"
  let ?w1 = "w\<lparr> backend := snd (get ?b ?max (backend w)),
                calls := calls w @ [GET_RECORD ?b ?max ?e0] \<rparr>"
  have "current wrh + length (be16 ?b) \<le> length (buffer wrh)" using ch lh room by simp
  from store_Some[OF this] obtain m1 where
    m1: "store_bytes (current wrh) (be16 ?b) (buffer wrh) = Some m1" by blast
  have l1: "length m1 = length (buffer wr)" using store_length[OF m1] lh by simp
  have big: "\<not> length m1 < current wrh + 4" using l1 ch room by simp
  let ?wr2 = "wrh\<lparr> buffer := m1, current := current wrh + 4 \<rparr>"
  have loop: "records_loop st get ?b ?wr2 ?max 0 ?e0 ?w1 = Some (KAA_ERR_NONE, ?wr2, ?max, 0, ?w1)"
    using none by (simp add: records_loop.simps)
  have "?cw + 4 + length (be32 (4 + ucast (?max - ?max))) \<le> length (buffer ?wr2)"
    using l1 room by simp
  from store_Some[OF this] obtain m2 where
    m2: "store_bytes (?cw + 4) (be32 (4 + ucast (?max - ?max))) (buffer ?wr2) = Some m2" by blast
  have "current wrh + 2 + length (be16 0) \<le> length m2"
    using store_length[OF m2] l1 ch room by simp
  from store_Some[OF this] obtain m3 where
    m3: "store_bytes (current wrh + 2) (be16 0) m2 = Some m3" by blast
  have "kaa_logging_request_serialize ty (Some c) (Some wr) w =
          Some (KAA_ERR_NONE, Some (c\<lparr> log_bucket_id := ?b \<rparr>), Some (?wr2\<lparr> buffer := m3 \<rparr>), ?w1)"
    unfolding serialize_unfold[OF st get p h base]
    using m1 big loop m2 m3 by simp
  then show ?thesis by blast
qed

text \<open>
  Claim C4, amended. When the first \<open>get_record\<close> of a request returns the sentinel
  (the backend has no eligible record), and the writer has the 12 bytes of header,
  bucket id and record count left, and a bucket id can be obtained, then
  \<^verbatim>\<open>kaa_logging_request_serialize\<close> returns \<^verbatim>\<open>KAA_ERR_NONE\<close>: it has made that
  one call into the backend, has moved \<open>current\<close> by 12 bytes, and the extension
  carries the incremented bucket id, the record count 0 and the length 4.
\<close>

theorem empty_request:
  assumes st: "log_storage c = Some st" and get: "get_record st = Some get"
    and p: "log_properties c = Some p"
    and room: "current wr + 12 \<le> length (buffer wr)"
    and base: "bucket_base c = Some base"
    and none: "record_data (fst (get (base + 1) (max_log_block_size p) (backend w))) = None"
  shows "\<exists>wrf. kaa_logging_request_serialize ty (Some c) (Some wr) w =
           Some (KAA_ERR_NONE, Some (c\<lparr> log_bucket_id := base + 1 \<rparr>), Some wrf,
                 w\<lparr> backend := snd (get (base + 1) (max_log_block_size p) (backend w)),
                    calls := calls w
                      @ [GET_RECORD (base + 1) (max_log_block_size p)
                           (fst (get (base + 1) (max_log_block_size p) (backend w)))] \<rparr>)
         \<and> current wrf = current wr + 12
         \<and> length (buffer wrf) = length (buffer wr)
         \<and> take (current wr) (buffer wrf) = take (current wr) (buffer wr)
         \<and> bytes_at (current wr + 4) 4 (buffer wrf) = be32 4
         \<and> bytes_at (current wr + 8) 2 (buffer wrf) = be16 (base + 1)
         \<and> bytes_at (current wr + 10) 2 (buffer wrf) = be16 0"
proof -
  let ?b = "base + 1"
  let ?max = "max_log_block_size p"
  let ?e0 = "fst (get ?b ?max (backend w))"
  let ?w1 = "w\<lparr> backend := snd (get ?b ?max (backend w)),
                calls := calls w @ [GET_RECORD ?b ?max ?e0] \<rparr>"
  from serialize_defined_empty[OF assms, of ty] obtain wrf where
    run: "kaa_logging_request_serialize ty (Some c) (Some wr) w =
            Some (KAA_ERR_NONE, Some (c\<lparr> log_bucket_id := ?b \<rparr>), Some wrf, ?w1)" by blast
  have room8: "current wr + 8 \<le> length (buffer wr)" using room by simp
  from serialize_summary[OF run st get p room8 base] obtain evs w0 where
    "request_summary st p ?b wr w KAA_ERR_NONE wrf ?w1 evs w0" by auto
  note s = this[unfolded request_summary_def]
  from s have "?w1 = w0" and "calls w0 = calls w @ evs" by simp_all
  then have evs: "evs = [GET_RECORD ?b ?max ?e0]" by auto
  have ret: "returned evs = []" unfolding evs using none by simp
  from s have "current wrf = current wr + 12"
    "length (buffer wrf) = length (buffer wr)"
    "take (current wr) (buffer wrf) = take (current wr) (buffer wr)"
    "bytes_at (current wr + 4) 4 (buffer wrf) = be32 4"
    "bytes_at (current wr + 8) 2 (buffer wrf) = be16 ?b"
    "bytes_at (current wr + 10) 2 (buffer wrf) = be16 0"
    unfolding ret by simp_all
  with run show ?thesis by blast
qed

theorem empty_request_witness:
  "log_storage scenario_collector = Some fifo_storage
   \<and> get_record fifo_storage = Some fifo_get_record
   \<and> log_properties scenario_collector = Some scenario_properties
   \<and> current (fresh_writer 12) + 12 \<le> length (buffer (fresh_writer 12))
   \<and> bucket_base scenario_collector = Some 0
   \<and> record_data (fst (fifo_get_record (0 + 1) (max_log_block_size scenario_properties)
                          (backend empty_world))) = None
   \<and> (\<exists>wrf. kaa_logging_request_serialize 4 (Some scenario_collector) (Some (fresh_writer 12))
               empty_world
             = Some (KAA_ERR_NONE, Some (scenario_collector\<lparr> log_bucket_id := 0 + 1 \<rparr>),
                     Some wrf,
                     empty_world\<lparr> backend := \<lparr> pending = [], in_flight = [] \<rparr>,
                                  calls := [GET_RECORD 1 100 no_record] \<rparr>)
           \<and> bytes_at 4 4 (buffer wrf) = be32 4 \<and> bytes_at 10 2 (buffer wrf) = be16 0)"
proof -
  have r: "current (fresh_writer 12) + 12 \<le> length (buffer (fresh_writer 12))"
    by (simp add: fresh_writer_def)
  have n: "record_data (fst (fifo_get_record (0 + 1) (max_log_block_size scenario_properties)
                          (backend empty_world))) = None"
    by (simp add: fifo_get_record_def empty_world_def no_record_def)
  have g: "fifo_get_record 1 100 (backend empty_world)
             = (no_record, \<lparr> pending = [], in_flight = [] \<rparr>)"
    by (simp add: fifo_get_record_def empty_world_def)
  have c: "current (fresh_writer 12) = 0" "calls empty_world = []"
    "max_log_block_size scenario_properties = 100"
    by (simp_all add: fresh_writer_def empty_world_def scenario_properties_def)
  from empty_request[OF scenario_bindings(1,2,3) r scenario_bindings(4) n, of 4]
  have "\<exists>wrf. kaa_logging_request_serialize 4 (Some scenario_collector) (Some (fresh_writer 12))
               empty_world
             = Some (KAA_ERR_NONE, Some (scenario_collector\<lparr> log_bucket_id := 0 + 1 \<rparr>),
                     Some wrf,
                     empty_world\<lparr> backend := \<lparr> pending = [], in_flight = [] \<rparr>,
                                  calls := [GET_RECORD 1 100 no_record] \<rparr>)
           \<and> bytes_at 4 4 (buffer wrf) = be32 4 \<and> bytes_at 10 2 (buffer wrf) = be16 0"
    by (auto simp: g c)
  with scenario_bindings r n show ?thesis by blast
qed



subsection \<open>Write failures and the budget\<close>

lemma outcome_run:
  assumes "outcome ty c wr w = Some (err, b, wr', w')"
  shows "\<exists>c'. kaa_logging_request_serialize ty (Some c) (Some wr) w = Some (err, Some c', Some wr', w')
              \<and> log_bucket_id c' = b"
  using assms unfolding outcome_def
  by (auto split: option.splits prod.splits)



text \<open>
  Claim C1, as the spec states it, fails by the 4 bytes of bucket id and record
  count: the budget of \<open>max_log_block_size\<close> is spent on the records alone, while
  the body of the extension, whose length the code back-patches, also holds those 4
  bytes. A backend that keeps the contract and hands out one record of 96 bytes for a
  block size of 100 makes the request emit a body of 104 bytes.
\<close>

theorem full_block_counterexample:
  "conforming fifo_get_record
   \<and> emitted 4 scenario_collector (fresh_writer 120) full_block_world
       = Some (KAA_ERR_NONE, be32 104, be16 1, be16 1, 112)
   \<and> unat (max_log_block_size scenario_properties) < (104 :: nat)"
proof -
  have "emitted 4 scenario_collector (fresh_writer 120) full_block_world
       = Some (KAA_ERR_NONE, be32 104, be16 1, be16 1, 112)" by code_simp
  moreover have "unat (max_log_block_size scenario_properties) < (104 :: nat)"
    by (simp add: scenario_properties_def)
  ultimately show ?thesis using fifo_conforming by simp
qed

text \<open>
  Claim C1, amended. For a backend whose \<open>get_record\<close> keeps the contract (each
  record returned fits, with size field and padding, within the budget offered), a
  request that is emitted has offered the budgets \<open>max_log_block_size\<close>, then after
  each record the previous budget less \<open>aligned_size(record_size) + 4\<close>; it has
  written, after the 12 bytes of header, id and count, exactly the sum of these
  amounts; this sum, the record section, does not exceed \<open>max_log_block_size\<close>; and
  the back-patched length is the sum plus 4, so at most \<open>max_log_block_size + 4\<close>.
\<close>

theorem request_within_budget:
  assumes run: "kaa_logging_request_serialize ty (Some c) (Some wr) w
                  = Some (KAA_ERR_NONE, c', Some wrf, w')"
    and st: "log_storage c = Some st" and get: "get_record st = Some get"
    and p: "log_properties c = Some p"
    and room: "current wr + 8 \<le> length (buffer wr)"
    and base: "bucket_base c = Some base"
    and conf: "conforming get"
  shows "offered (new_calls w w')
           = budgets (max_log_block_size p) (returned (new_calls w w'))
       \<and> current wrf
           = current wr + 12 + sum_list (map footprint (returned (new_calls w w')))
       \<and> sum_list (map footprint (returned (new_calls w w'))) \<le> unat (max_log_block_size p)
       \<and> bytes_at (current wr + 4) 4 (buffer wrf)
           = be32 (of_nat (4 + sum_list (map footprint (returned (new_calls w w')))))
       \<and> bytes_at (current wr + 10) 2 (buffer wrf)
           = be16 (of_nat (length (returned (new_calls w w'))))"
proof -
  from serialize_summary[OF run st get p room base] conf obtain evs w0 where
    "request_summary st p (base + 1) wr w KAA_ERR_NONE wrf w' evs w0"
    and b: "sum_list (map footprint (returned evs)) \<le> unat (max_log_block_size p)"
    by auto
  note s = this(1)[unfolded request_summary_def]
  from s have "calls w' = calls w @ evs" by simp
  then have n: "new_calls w w' = evs" by simp
  have l: "(4 :: uint32_t) + ucast (sum_list (map cost (returned evs)))
             = of_nat (4 + sum_list (map footprint (returned evs)))"
    unfolding sum_cost ucast_of_nat_down by simp
  from s have "offered evs = budgets (max_log_block_size p) (returned evs)"
    "current wrf = current wr + 12 + sum_list (map footprint (returned evs))"
    "bytes_at (current wr + 4) 4 (buffer wrf)
       = be32 (4 + ucast (sum_list (map cost (returned evs))))"
    "bytes_at (current wr + 10) 2 (buffer wrf) = be16 (of_nat (length (returned evs)))"
    by simp_all
  with b show ?thesis unfolding n l by simp
qed


theorem request_within_budget_witness:
  "log_storage scenario_collector = Some fifo_storage
   \<and> get_record fifo_storage = Some fifo_get_record
   \<and> log_properties scenario_collector = Some scenario_properties
   \<and> current (fresh_writer 120) + 8 \<le> length (buffer (fresh_writer 120))
   \<and> bucket_base scenario_collector = Some 0
   \<and> conforming fifo_get_record
   \<and> outcome 4 scenario_collector (fresh_writer 120) scenario_world
       = Some (KAA_ERR_NONE, 1, scenario_sent 4, scenario_sent_world)
   \<and> offered (new_calls scenario_world scenario_sent_world) = [100, 84, 28]
   \<and> current (scenario_sent 4) = current (fresh_writer 120) + 12 + 72
   \<and> (72 :: nat) \<le> unat (max_log_block_size scenario_properties)
   \<and> bytes_at (current (fresh_writer 120) + 4) 4 (buffer (scenario_sent 4)) = be32 76"
proof -
  have r: "current (fresh_writer 120) + 8 \<le> length (buffer (fresh_writer 120))"
    by (simp add: fresh_writer_def)
  have o: "outcome 4 scenario_collector (fresh_writer 120) scenario_world
       = Some (KAA_ERR_NONE, 1, scenario_sent 4, scenario_sent_world)"
    by code_simp
  have v: "budgets (max_log_block_size scenario_properties)
             (returned (new_calls scenario_world scenario_sent_world)) = [100, 84, 28]"
    "sum_list (map footprint (returned (new_calls scenario_world scenario_sent_world))) = 72"
    by code_simp+
  from outcome_run[OF o] obtain c' where
    run: "kaa_logging_request_serialize 4 (Some scenario_collector) (Some (fresh_writer 120))
            scenario_world
          = Some (KAA_ERR_NONE, Some c', Some (scenario_sent 4), scenario_sent_world)"
    by blast
  from request_within_budget[OF run scenario_bindings(1,2,3) r scenario_bindings(4)
         fifo_conforming]
  have "offered (new_calls scenario_world scenario_sent_world) = [100, 84, 28]
      \<and> current (scenario_sent 4) = current (fresh_writer 120) + 12 + 72
      \<and> (72 :: nat) \<le> unat (max_log_block_size scenario_properties)
      \<and> bytes_at (current (fresh_writer 120) + 4) 4 (buffer (scenario_sent 4)) = be32 76"
    unfolding v by simp
  with scenario_bindings r o fifo_conforming show ?thesis by simp
qed



subsection \<open>Bucket ids\<close>

lemma serialize_step:
  assumes run: "kaa_logging_request_serialize ty (Some c) (Some wr) w
                  = Some (err, Some c1, Some wr1, w1)"
  shows "c1 = c \<and> err \<noteq> KAA_ERR_NONE
       \<or> (\<exists>base. bucket_base c = Some base \<and> c1 = c\<lparr> log_bucket_id := base + 1 \<rparr>
             \<and> (err = KAA_ERR_NONE \<longrightarrow>
                   bytes_at (current wr + 8) 2 (buffer wr1) = be16 (base + 1)))"
proof (cases "log_storage c")
  case None
  with run show ?thesis by (simp add: kaa_logging_request_serialize_def)
next
  case (Some st)
  note st = this
  show ?thesis
  proof (cases "get_record st")
    case None
    with run st show ?thesis by (simp add: kaa_logging_request_serialize_def)
  next
    case (Some get)
    note get = this
    show ?thesis
    proof (cases "log_properties c")
      case None
      with run st get show ?thesis by (simp add: kaa_logging_request_serialize_def)
    next
      case (Some p)
      note p = this
      show ?thesis
      proof (cases "current wr + 8 \<le> length (buffer wr)")
        case False
        then have "kaa_platform_message_extension_header_write wr ty
                     KAA_LOGGING_RECEIVE_UPDATES_FLAG 0 = (KAA_ERR_WRITE_FAILED, wr)"
          by (simp add: header_exhausted)
        with run st get p show ?thesis
          by (simp add: kaa_logging_request_serialize_def Let_def)
      next
        case True
        note room = this
        from header_write[OF room, of ty KAA_LOGGING_RECEIVE_UPDATES_FLAG 0] obtain wrh where
          h: "kaa_platform_message_extension_header_write wr ty KAA_LOGGING_RECEIVE_UPDATES_FLAG 0
                = (KAA_ERR_NONE, wrh)" by blast
        show ?thesis
        proof (cases "bucket_base c")
          case None
          then have z: "log_bucket_id c = 0" and n: "status c = None"
            by (auto simp: bucket_base_def split: if_splits)
          then have "kaa_status_get_log_bucket_id (status c) (log_bucket_id c)
                       = (KAA_ERR_BADPARAM, log_bucket_id c)"
            by (simp add: kaa_status_get_log_bucket_id_def)
          with run st get p h z have "err = KAA_ERR_BAD_STATE"
            and "c1 = c\<lparr> log_bucket_id := log_bucket_id c \<rparr>"
            by (simp_all add: kaa_logging_request_serialize_def Let_def)
          then show ?thesis by simp
        next
          case (Some base)
          from serialize_summary[OF run st get p room Some] obtain evs w0 where
            c1: "c1 = c\<lparr> log_bucket_id := base + 1 \<rparr>"
            and "request_summary st p (base + 1) wr w err wr1 w1 evs w0" by auto
          then have "bytes_at (current wr + 8) 2 (buffer wr1) = be16 (base + 1)"
            by (simp add: request_summary_def)
          with Some c1 show ?thesis by blast
        qed
      qed
    qed
  qed
qed

lemma unat_succ16:
  fixes b :: uint16_t
  assumes "unat b + 1 < 2 ^ 16"
  shows "unat (b + 1) = unat b + 1" and "b + 1 \<noteq> 0"
proof -
  have "unat b + unat (1 :: uint16_t) < 2 ^ LENGTH(16)" using assms by simp
  then have "unat (b + 1) = unat b + unat (1 :: uint16_t)" by (rule unat_add_lem[THEN iffD1])
  then show u: "unat (b + 1) = unat b + 1" by simp
  show "b + 1 \<noteq> 0"
  proof
    assume "b + 1 = 0"
    then have "unat (b + 1) = 0" by simp
    with u show False by simp
  qed
qed

lemma serialize_status:
  assumes "kaa_logging_request_serialize ty (Some c) (Some wr) w
                  = Some (err, Some c1, Some wr1, w1)"
  shows "status c1 = status c"
proof -
  have "c1 = c\<lparr> log_bucket_id := log_bucket_id c1 \<rparr>" using serialize_fields[OF assms] .
  then show ?thesis
    by (metis kaa_log_collector_t.select_convs kaa_log_collector_t.surjective
          kaa_log_collector_t.update_convs)
qed

lemma bucket_ids_series:
  assumes "serialize_all ty c reqs = Some (ids, cf)"
    and "bucket_base c = Some base"
    and "unat base + length reqs < 2 ^ 16"
  shows "status cf = status c
       \<and> sorted_wrt (<) (map unat ids)
       \<and> (\<forall>i \<in> set ids. unat base < unat i \<and> unat i \<le> unat base + length reqs)"
  using assms
proof (induction reqs arbitrary: c base ids)
  case Nil
  then show ?case by simp
next
  case (Cons req reqs)
  obtain wr w where req: "req = (wr, w)" by (cases req)
  from Cons.prems(1) req obtain err c1 wr1 w1 ids' where
    run: "kaa_logging_request_serialize ty (Some c) (Some wr) w = Some (err, Some c1, Some wr1, w1)"
    and rest: "serialize_all ty c1 reqs = Some (ids', cf)"
    and ids: "ids = (if err = KAA_ERR_NONE
                     then [load_be16 (bytes_at (current wr + 8) 2 (buffer wr1))] else []) @ ids'"
    by (auto split: option.splits prod.splits)
  have s1: "status c1 = status c" by (rule serialize_status[OF run])
  from serialize_step[OF run] show ?case
  proof
    assume a: "c1 = c \<and> err \<noteq> KAA_ERR_NONE"
    then have b: "bucket_base c1 = Some base" using Cons.prems(2) by simp
    have "unat base + length reqs < 2 ^ 16" using Cons.prems(3) by simp
    from Cons.IH[OF rest b this] a ids s1 show ?thesis by auto
  next
    assume "\<exists>base. bucket_base c = Some base \<and> c1 = c\<lparr> log_bucket_id := base + 1 \<rparr>
             \<and> (err = KAA_ERR_NONE \<longrightarrow>
                   bytes_at (current wr + 8) 2 (buffer wr1) = be16 (base + 1))"
    with Cons.prems(2) have c1: "c1 = c\<lparr> log_bucket_id := base + 1 \<rparr>"
      and f: "err = KAA_ERR_NONE \<longrightarrow> bytes_at (current wr + 8) 2 (buffer wr1) = be16 (base + 1)"
      by auto
    have small: "unat base + 1 < 2 ^ 16" using Cons.prems(3) by simp
    note u = unat_succ16[OF small]
    have b: "bucket_base c1 = Some (base + 1)" using c1 u(2) by (simp add: bucket_base_def)
    have "unat (base + 1) + length reqs < 2 ^ 16" using Cons.prems(3) u(1) by simp
    from Cons.IH[OF rest b this]
    have ih: "status cf = status c1" "sorted_wrt (<) (map unat ids')"
      "\<forall>i \<in> set ids'. unat (base + 1) < unat i \<and> unat i \<le> unat (base + 1) + length reqs"
      by simp_all
    show ?thesis
    proof (cases "err = KAA_ERR_NONE")
      case True
      with f ids have "ids = (base + 1) # ids'" by (simp add: load_be16_be16)
      with ih s1 u(1) show ?thesis by auto
    next
      case False
      with ids have "ids = ids'" by simp
      with ih s1 u(1) show ?thesis by auto
    qed
  qed
qed


text \<open>
  Claim C3, as the spec states it, fails in its last part: the incremented bucket id is
  not written back to the durable status storage. \<^verbatim>\<open>kaa_logging_request_serialize\<close>
  reads the persisted id when the collector's own is unset and keeps the incremented
  value in the collector only. After the scenario's request the collector holds the
  bucket id 1 and the status storage still holds 0.
\<close>

theorem bucket_id_counterexample:
  "bucket_ids_after 4 scenario_collector (fresh_writer 120) scenario_world = Some (1, Some 0)"
  by code_simp


text \<open>
  Claim C3, amended. Take successive requests on one collector, few enough for the
  16-bit id not to wrap around. The bucket ids of the emitted requests, read back from
  the wire, strictly increase, so none repeats. A request that is emitted carries the
  id on which it builds plus 1, and that base is the collector's own id when it is
  set and the id read from the durable status storage when it is unset (0). The status
  storage is only read: it is the same after the requests as before.
\<close>

theorem bucket_ids_increase:
  assumes run: "serialize_all ty c reqs = Some (ids, cf)"
    and base: "bucket_base c = Some base"
    and nowrap: "unat base + length reqs < 2 ^ 16"
  shows "sorted_wrt (<) (map unat ids)
       \<and> distinct ids
       \<and> (\<forall>i \<in> set ids. unat base < unat i \<and> unat i \<le> unat base + length reqs)
       \<and> status cf = status c
       \<and> (\<forall>wr w c1 wr1 w1.
             kaa_logging_request_serialize ty (Some c) (Some wr) w
               = Some (KAA_ERR_NONE, Some c1, Some wr1, w1) \<longrightarrow>
             log_bucket_id c1 = base + 1
             \<and> load_be16 (bytes_at (current wr + 8) 2 (buffer wr1)) = base + 1
             \<and> status c1 = status c)"
proof -
  from bucket_ids_series[OF run base nowrap]
  have s: "status cf = status c" "sorted_wrt (<) (map unat ids)"
    "\<forall>i \<in> set ids. unat base < unat i \<and> unat i \<le> unat base + length reqs"
    by simp_all
  from s(2) have "distinct (map unat ids)" by (simp add: strict_sorted_iff)
  then have d: "distinct ids" by (simp add: distinct_map)
  have one: "log_bucket_id c1 = base + 1
             \<and> load_be16 (bytes_at (current wr + 8) 2 (buffer wr1)) = base + 1
             \<and> status c1 = status c"
    if r: "kaa_logging_request_serialize ty (Some c) (Some wr) w
               = Some (KAA_ERR_NONE, Some c1, Some wr1, w1)" for wr w c1 wr1 w1
  proof -
    from serialize_step[OF r] base
    have "c1 = c\<lparr> log_bucket_id := base + 1 \<rparr>"
      and "bytes_at (current wr + 8) 2 (buffer wr1) = be16 (base + 1)" by auto
    then show ?thesis using serialize_status[OF r] by (simp add: load_be16_be16)
  qed
  from s d one show ?thesis by blast
qed

theorem bucket_ids_increase_witness:
  "bucket_base scenario_collector = Some 0
   \<and> unat (0 :: uint16_t) + length scenario_requests < 2 ^ 16
   \<and> map_option fst (serialize_all 4 scenario_collector scenario_requests) = Some [1, 3]
   \<and> distinct [1, 3 :: uint16_t]
   \<and> map_option (\<lambda>r. status (snd r)) (serialize_all 4 scenario_collector scenario_requests)
       = Some (status scenario_collector)"
proof -
  have n: "unat (0 :: uint16_t) + length scenario_requests < 2 ^ 16"
    by (simp add: scenario_requests_def)
  have i: "map_option fst (serialize_all 4 scenario_collector scenario_requests) = Some [1, 3]"
    by code_simp
  then obtain cf where
    run: "serialize_all 4 scenario_collector scenario_requests = Some ([1, 3], cf)"
    by (cases "serialize_all 4 scenario_collector scenario_requests") auto
  from bucket_ids_increase[OF run scenario_bindings(4) n]
  have "distinct [1, 3 :: uint16_t]" and "status cf = status scenario_collector" by blast+
  with run scenario_bindings(4) n i show ?thesis by simp
qed


end
